theory Spec2Isabelle
  imports Complex_Main "HOL-Library.Monad_Syntax"
begin

section \<open>Vectors and the GLSL built-ins\<close>

text \<open>
  The shaders are modelled in exact real arithmetic. A GLSL value that the language
  leaves undefined (\<open>normalize\<close> of the zero vector, \<open>pow\<close> with a negative base,
  two-argument \<open>atan\<close> at the origin, a division by zero) is \<open>None\<close>.
\<close>

datatype vec2 = Vec2 (px: real) (py: real)
datatype vec3 = Vec3 (vx: real) (vy: real) (vz: real)
datatype vec4 = Vec4 (wx: real) (wy: real) (wz: real) (ww: real)

datatype mat3 = Mat3 vec3 vec3 vec3
datatype mat4 = Mat4 vec4 vec4 vec4 vec4

definition map3 :: "(real \<Rightarrow> real) \<Rightarrow> vec3 \<Rightarrow> vec3" where
  "map3 f a = Vec3 (f (vx a)) (f (vy a)) (f (vz a))"

definition map4 :: "(real \<Rightarrow> real) \<Rightarrow> vec4 \<Rightarrow> vec4" where
  "map4 f a = Vec4 (f (wx a)) (f (wy a)) (f (wz a)) (f (ww a))"

definition add3 :: "vec3 \<Rightarrow> vec3 \<Rightarrow> vec3" where
  "add3 a b = Vec3 (vx a + vx b) (vy a + vy b) (vz a + vz b)"

definition sub3 :: "vec3 \<Rightarrow> vec3 \<Rightarrow> vec3" where
  "sub3 a b = Vec3 (vx a - vx b) (vy a - vy b) (vz a - vz b)"

definition mul3 :: "vec3 \<Rightarrow> vec3 \<Rightarrow> vec3" where
  "mul3 a b = Vec3 (vx a * vx b) (vy a * vy b) (vz a * vz b)"

definition scale3 :: "vec3 \<Rightarrow> real \<Rightarrow> vec3" where
  "scale3 a k = Vec3 (vx a * k) (vy a * k) (vz a * k)"

definition neg3 :: "vec3 \<Rightarrow> vec3" where
  "neg3 a = Vec3 (- vx a) (- vy a) (- vz a)"

definition dot2 :: "vec2 \<Rightarrow> vec2 \<Rightarrow> real" where
  "dot2 a b = px a * px b + py a * py b"

definition dot3 :: "vec3 \<Rightarrow> vec3 \<Rightarrow> real" where
  "dot3 a b = vx a * vx b + vy a * vy b + vz a * vz b"

definition add4 :: "vec4 \<Rightarrow> vec4 \<Rightarrow> vec4" where
  "add4 a b = Vec4 (wx a + wx b) (wy a + wy b) (wz a + wz b) (ww a + ww b)"

definition sub4 :: "vec4 \<Rightarrow> vec4 \<Rightarrow> vec4" where
  "sub4 a b = Vec4 (wx a - wx b) (wy a - wy b) (wz a - wz b) (ww a - ww b)"

definition mul4 :: "vec4 \<Rightarrow> vec4 \<Rightarrow> vec4" where
  "mul4 a b = Vec4 (wx a * wx b) (wy a * wy b) (wz a * wz b) (ww a * ww b)"

definition scale4 :: "vec4 \<Rightarrow> real \<Rightarrow> vec4" where
  "scale4 a k = Vec4 (wx a * k) (wy a * k) (wz a * k) (ww a * k)"

definition dot4 :: "vec4 \<Rightarrow> vec4 \<Rightarrow> real" where
  "dot4 a b = wx a * wx b + wy a * wy b + wz a * wz b + ww a * ww b"

definition xyz :: "vec4 \<Rightarrow> vec3" where
  "xyz a = Vec3 (wx a) (wy a) (wz a)"

definition mat3_mul :: "mat3 \<Rightarrow> vec3 \<Rightarrow> vec3" where
  "mat3_mul m a = (case m of Mat3 c0 c1 c2 \<Rightarrow>
     add3 (add3 (scale3 c0 (vx a)) (scale3 c1 (vy a))) (scale3 c2 (vz a)))"

definition mat4_mul :: "mat4 \<Rightarrow> vec4 \<Rightarrow> vec4" where
  "mat4_mul m a = (case m of Mat4 c0 c1 c2 c3 \<Rightarrow>
     add4 (add4 (add4 (scale4 c0 (wx a)) (scale4 c1 (wy a))) (scale4 c2 (wz a)))
          (scale4 c3 (ww a)))"

definition floor_r :: "real \<Rightarrow> real" where
  "floor_r x = of_int \<lfloor>x\<rfloor>"

definition fract :: "real \<Rightarrow> real" where
  "fract x = x - floor_r x"

definition step :: "real \<Rightarrow> real \<Rightarrow> real" where
  "step edge x = (if x < edge then 0 else 1)"

definition clamp :: "real \<Rightarrow> real \<Rightarrow> real \<Rightarrow> real" where
  "clamp x lo hi = min (max x lo) hi"

definition mix :: "real \<Rightarrow> real \<Rightarrow> real \<Rightarrow> real" where
  "mix x y a = x * (1 - a) + y * a"

definition mix3 :: "vec3 \<Rightarrow> vec3 \<Rightarrow> real \<Rightarrow> vec3" where
  "mix3 a b t = Vec3 (mix (vx a) (vx b) t) (mix (vy a) (vy b) t) (mix (vz a) (vz b) t)"

definition smoothstep :: "real \<Rightarrow> real \<Rightarrow> real \<Rightarrow> real" where
  \<comment> \<open>the formula of the GLSL specification, which every call site uses with two
      distinct constant edges (several of them in descending order)\<close>
  "smoothstep edge0 edge1 x =
     (let t = clamp ((x - edge0) / (edge1 - edge0)) 0 1 in t * t * (3 - 2 * t))"

definition length3 :: "vec3 \<Rightarrow> real" where
  "length3 a = sqrt (dot3 a a)"

definition normalize3 :: "vec3 \<Rightarrow> vec3 option" where
  "normalize3 a = (if length3 a = 0 then None else Some (scale3 a (1 / length3 a)))"

definition reflect :: "vec3 \<Rightarrow> vec3 \<Rightarrow> vec3" where
  "reflect i n = sub3 i (scale3 n (2 * dot3 n i))"

definition pow :: "real \<Rightarrow> real \<Rightarrow> real option" where
  \<comment> \<open>undefined for a negative base, and for a zero base with a non-positive exponent\<close>
  "pow x y = (if x < 0 \<or> (x = 0 \<and> y \<le> 0) then None else Some (x powr y))"

definition divide_g :: "real \<Rightarrow> real \<Rightarrow> real option" where
  "divide_g a b = (if b = 0 then None else Some (a / b))"

section \<open>Four-dimensional simplex noise (shaders/fragment.glsl, vertex part)\<close>

definition mod289 :: "real \<Rightarrow> real" where
  "mod289 x = x - floor_r (x * (1 / 289)) * 289"

definition permute :: "real \<Rightarrow> real" where
  "permute x = mod289 (((x * 34) + 10) * x)"

definition taylorInvSqrt :: "real \<Rightarrow> real" where
  "taylorInvSqrt r = 1.79284291400159 - 0.85373472095314 * r"

definition grad4 :: "real \<Rightarrow> vec4 \<Rightarrow> vec4" where
  "grad4 j ip =
     (let p3 = Vec3 (floor_r (fract (j * wx ip) * 7) * wz ip - 1)
                    (floor_r (fract (j * wy ip) * 7) * wz ip - 1)
                    (floor_r (fract (j * wz ip) * 7) * wz ip - 1);
          pw = 1.5 - dot3 (map3 abs p3) (Vec3 1 1 1);
          s = Vec4 (if vx p3 < 0 then 1 else 0) (if vy p3 < 0 then 1 else 0)
                   (if vz p3 < 0 then 1 else 0) (if pw < 0 then 1 else 0)
      in Vec4 (vx p3 + (wx s * 2 - 1) * ww s)
              (vy p3 + (wy s * 2 - 1) * ww s)
              (vz p3 + (wz s * 2 - 1) * ww s)
              pw)"

definition F4 :: real where
  "F4 = 0.309016994374947451"

definition snoise_v4 :: "vec4 \<Rightarrow> real" where
  "snoise_v4 v =
     (let C = Vec4 0.138196601125011 0.276393202250021 0.414589803375032
                   (- 0.447213595499958);
          i = map4 floor_r (map4 (\<lambda>c. c + dot4 v (Vec4 F4 F4 F4 F4)) v);
          x0 = map4 (\<lambda>c. c + dot4 i (Vec4 (wx C) (wx C) (wx C) (wx C))) (sub4 v i);
          isX = Vec3 (step (wy x0) (wx x0)) (step (wz x0) (wx x0)) (step (ww x0) (wx x0));
          isYZ = Vec3 (step (wz x0) (wy x0)) (step (ww x0) (wy x0)) (step (ww x0) (wz x0));
          i0 = Vec4 (vx isX + vy isX + vz isX)
                    ((1 - vx isX) + (vx isYZ + vy isYZ))
                    (((1 - vy isX) + (1 - vx isYZ)) + vz isYZ)
                    (((1 - vz isX) + (1 - vy isYZ)) + (1 - vz isYZ));
          i3 = map4 (\<lambda>c. clamp c 0 1) i0;
          i2 = map4 (\<lambda>c. clamp (c - 1) 0 1) i0;
          i1 = map4 (\<lambda>c. clamp (c - 2) 0 1) i0;
          x1 = map4 (\<lambda>c. c + wx C) (sub4 x0 i1);
          x2 = map4 (\<lambda>c. c + wy C) (sub4 x0 i2);
          x3 = map4 (\<lambda>c. c + wz C) (sub4 x0 i3);
          x4 = map4 (\<lambda>c. c + ww C) x0;
          im = map4 mod289 i;
          j0 = permute (permute (permute (permute (ww im) + wz im) + wy im) + wx im);
          j1 = map4 permute (add4 (map4 (\<lambda>c. c + wx im)
                 (map4 permute (add4 (map4 (\<lambda>c. c + wy im)
                   (map4 permute (add4 (map4 (\<lambda>c. c + wz im)
                     (map4 permute (map4 (\<lambda>c. ww im + c) (Vec4 (ww i1) (ww i2) (ww i3) 1))))
                     (Vec4 (wz i1) (wz i2) (wz i3) 1))))
                   (Vec4 (wy i1) (wy i2) (wy i3) 1))))
                 (Vec4 (wx i1) (wx i2) (wx i3) 1));
          ip = Vec4 (1 / 294) (1 / 49) (1 / 7) 0;
          p0 = grad4 j0 ip;
          p1 = grad4 (wx j1) ip;
          p2 = grad4 (wy j1) ip;
          p3 = grad4 (wz j1) ip;
          p4 = grad4 (ww j1) ip;
          norm = map4 taylorInvSqrt (Vec4 (dot4 p0 p0) (dot4 p1 p1) (dot4 p2 p2) (dot4 p3 p3));
          p0 = scale4 p0 (wx norm);
          p1 = scale4 p1 (wy norm);
          p2 = scale4 p2 (wz norm);
          p3 = scale4 p3 (ww norm);
          p4 = scale4 p4 (taylorInvSqrt (dot4 p4 p4));
          m0 = map3 (\<lambda>c. max (0.6 - c) 0) (Vec3 (dot4 x0 x0) (dot4 x1 x1) (dot4 x2 x2));
          m1 = Vec2 (max (0.6 - dot4 x3 x3) 0) (max (0.6 - dot4 x4 x4) 0);
          m0 = mul3 m0 m0;
          m1 = Vec2 (px m1 * px m1) (py m1 * py m1)
      in 49 * (dot3 (mul3 m0 m0) (Vec3 (dot4 p0 x0) (dot4 p1 x1) (dot4 p2 x2))
             + dot2 (Vec2 (px m1 * px m1) (py m1 * py m1)) (Vec2 (dot4 p3 x3) (dot4 p4 x4))))"


section \<open>Fractal Brownian motion and the 4D vertex deformer (shaders/fragment.glsl)\<close>

text \<open>
  The loop of \<open>fbm\<close> runs \<open>i\<close> from 0 to 3 and leaves at the first \<open>i \<ge> octaves\<close>;
  its state is (value, amplitude, frequency, maxValue).
\<close>

function fbm_loop :: "int \<Rightarrow> int \<Rightarrow> vec4 \<Rightarrow> real \<times> real \<times> real \<times> real
    \<Rightarrow> real \<times> real \<times> real \<times> real" where
  "fbm_loop i octaves p (val, amplitude, frequency, maxValue) =
     (if i < 4 then
        (if i \<ge> octaves then (val, amplitude, frequency, maxValue)
         else fbm_loop (i + 1) octaves p
                (val + amplitude * snoise_v4 (scale4 p frequency),
                 amplitude * 0.5, frequency * 2, maxValue + amplitude))
      else (val, amplitude, frequency, maxValue))"
  by pat_completeness auto
termination
  by (relation "measure (\<lambda>(i, octaves, p, st). nat (4 - i))") auto

declare fbm_loop.simps [simp del]

definition fbm :: "vec4 \<Rightarrow> int \<Rightarrow> real option" where
  "fbm p octaves =
     (case fbm_loop 0 octaves p (0, 0.5, 1, 0) of
        (val, amplitude, frequency, maxValue) \<Rightarrow> divide_g val maxValue)"

record vertex_uniforms =
  u_time :: real
  u_noiseScale :: real
  u_amplitude :: real
  u_viscosity :: real
  normalMatrix :: mat3
  modelMatrix :: mat4
  modelViewMatrix :: mat4
  projectionMatrix :: mat4

text \<open>The varyings and \<open>gl_Position\<close> written by a vertex shader; \<open>None\<close> is an undefined value.\<close>

record vertex_out =
  out_v_normal :: "vec3 option"
  out_v_smoothNormal :: "vec3 option"
  out_v_position :: "vec3 option"
  out_v_localPosition :: "vec3 option"
  out_v_worldPosition :: "vec3 option"
  out_v_displacement :: "real option"
  out_gl_Position :: "vec4 option"

definition verticalBias :: "vec3 \<Rightarrow> real" where
  "verticalBias pos = clamp (1 - (vy pos * 0.3 + 0.5)) 0.6 1.2"

definition horizontalScale :: "vec3 \<Rightarrow> real" where
  "horizontalScale pos = 1 + (1 - \<bar>vy pos\<bar>) * 0.15"

definition noiseInput :: "vertex_uniforms \<Rightarrow> vec3 \<Rightarrow> vec4" where
  "noiseInput u pos =
     (let slowTime = u_time u * u_viscosity u
      in Vec4 (vx pos * u_noiseScale u * horizontalScale pos)
              (vy pos * u_noiseScale u * 0.7)
              (vz pos * u_noiseScale u * horizontalScale pos)
              slowTime)"

definition detailInput :: "vertex_uniforms \<Rightarrow> vec3 \<Rightarrow> vec4" where
  "detailInput u pos =
     (let slowTime = u_time u * u_viscosity u
      in Vec4 (vx pos * u_noiseScale u * 2.5) (vy pos * u_noiseScale u * 2.5)
              (vz pos * u_noiseScale u * 2.5) (slowTime * 1.3))"

definition displacement_glsl :: "vertex_uniforms \<Rightarrow> vec3 \<Rightarrow> real option" where
  "displacement_glsl u pos =
     do {
       primaryNoise \<leftarrow> fbm (noiseInput u pos) 3;
       let detailNoise = snoise_v4 (detailInput u pos) * 0.15;
       Some ((primaryNoise + detailNoise) * u_amplitude u * verticalBias pos)
     }"

definition vec4_of :: "vec3 \<Rightarrow> real \<Rightarrow> vec4" where
  "vec4_of a w = Vec4 (vx a) (vy a) (vz a) w"

definition main_vertex_glsl :: "vertex_uniforms \<Rightarrow> vec3 \<Rightarrow> vec3 \<Rightarrow> vertex_out" where
  "main_vertex_glsl u position normal =
     (let pos = position;
          norm = normalize3 normal;
          displacement = displacement_glsl u pos;
          newPosition = do { n \<leftarrow> norm; d \<leftarrow> displacement; Some (add3 pos (scale3 n d)) }
      in \<lparr> out_v_normal = do { n \<leftarrow> norm; normalize3 (mat3_mul (normalMatrix u) n) },
           out_v_smoothNormal = None,
           out_v_position = newPosition,
           out_v_localPosition = None,
           out_v_worldPosition =
             map_option (\<lambda>q. xyz (mat4_mul (modelMatrix u) (vec4_of q 1))) newPosition,
           out_v_displacement = displacement,
           out_gl_Position =
             map_option (\<lambda>q. mat4_mul (projectionMatrix u)
                                 (mat4_mul (modelViewMatrix u) (vec4_of q 1))) newPosition \<rparr>)"

section \<open>Three-dimensional simplex noise and the breathing deformer (main.js)\<close>

definition snoise_v3 :: "vec3 \<Rightarrow> real" where
  "snoise_v3 v =
     (let C = Vec2 (1 / 6) (1 / 3);
          D = Vec4 0 0.5 1 2;
          i = map3 floor_r (map3 (\<lambda>c. c + dot3 v (Vec3 (py C) (py C) (py C))) v);
          x0 = map3 (\<lambda>c. c + dot3 i (Vec3 (px C) (px C) (px C))) (sub3 v i);
          g = Vec3 (step (vy x0) (vx x0)) (step (vz x0) (vy x0)) (step (vx x0) (vz x0));
          l = map3 (\<lambda>c. 1 - c) g;
          i1 = Vec3 (min (vx g) (vz l)) (min (vy g) (vx l)) (min (vz g) (vy l));
          i2 = Vec3 (max (vx g) (vz l)) (max (vy g) (vx l)) (max (vz g) (vy l));
          x1 = map3 (\<lambda>c. c + px C) (sub3 x0 i1);
          x2 = map3 (\<lambda>c. c + py C) (sub3 x0 i2);
          x3 = map3 (\<lambda>c. c - wy D) x0;
          im = map3 mod289 i;
          p = map4 permute (add4 (map4 (\<lambda>c. c + vx im)
                (map4 permute (add4 (map4 (\<lambda>c. c + vy im)
                  (map4 permute (map4 (\<lambda>c. vz im + c) (Vec4 0 (vz i1) (vz i2) 1))))
                  (Vec4 0 (vy i1) (vy i2) 1))))
                (Vec4 0 (vx i1) (vx i2) 1));
          n' = 0.142857142857;
          ns = Vec3 (n' * ww D - wx D) (n' * wy D - wz D) (n' * wz D - wx D);
          j = map4 (\<lambda>c. c - 49 * floor_r (c * vz ns * vz ns)) p;
          x' = map4 (\<lambda>c. floor_r (c * vz ns)) j;
          y' = Vec4 (floor_r (wx j - 7 * wx x')) (floor_r (wy j - 7 * wy x'))
                    (floor_r (wz j - 7 * wz x')) (floor_r (ww j - 7 * ww x'));
          x = map4 (\<lambda>c. c * vx ns + vy ns) x';
          y = map4 (\<lambda>c. c * vx ns + vy ns) y';
          h = Vec4 (1 - \<bar>wx x\<bar> - \<bar>wx y\<bar>) (1 - \<bar>wy x\<bar> - \<bar>wy y\<bar>)
                   (1 - \<bar>wz x\<bar> - \<bar>wz y\<bar>) (1 - \<bar>ww x\<bar> - \<bar>ww y\<bar>);
          b0 = Vec4 (wx x) (wy x) (wx y) (wy y);
          b1 = Vec4 (wz x) (ww x) (wz y) (ww y);
          s0 = map4 (\<lambda>c. floor_r c * 2 + 1) b0;
          s1 = map4 (\<lambda>c. floor_r c * 2 + 1) b1;
          sh = map4 (\<lambda>c. - step c 0) h;
          a0 = Vec4 (wx b0 + wx s0 * wx sh) (wz b0 + wz s0 * wx sh)
                    (wy b0 + wy s0 * wy sh) (ww b0 + ww s0 * wy sh);
          a1 = Vec4 (wx b1 + wx s1 * wz sh) (wz b1 + wz s1 * wz sh)
                    (wy b1 + wy s1 * ww sh) (ww b1 + ww s1 * ww sh);
          p0 = Vec3 (wx a0) (wy a0) (wx h);
          p1 = Vec3 (wz a0) (ww a0) (wy h);
          p2 = Vec3 (wx a1) (wy a1) (wz h);
          p3 = Vec3 (wz a1) (ww a1) (ww h);
          norm = map4 taylorInvSqrt (Vec4 (dot3 p0 p0) (dot3 p1 p1) (dot3 p2 p2) (dot3 p3 p3));
          p0 = scale3 p0 (wx norm);
          p1 = scale3 p1 (wy norm);
          p2 = scale3 p2 (wz norm);
          p3 = scale3 p3 (ww norm);
          m = map4 (\<lambda>c. max (0.6 - c) 0)
                (Vec4 (dot3 x0 x0) (dot3 x1 x1) (dot3 x2 x2) (dot3 x3 x3));
          m = mul4 m m
      in 42 * dot4 (mul4 m m) (Vec4 (dot3 p0 x0) (dot3 p1 x1) (dot3 p2 x2) (dot3 p3 x3)))"

definition vertBias :: "vec3 \<Rightarrow> real" where
  "vertBias pos = (vy pos + 1) * 0.4 + 0.5"

definition displacement_js :: "vertex_uniforms \<Rightarrow> vec3 \<Rightarrow> real" where
  "displacement_js u pos =
     (let slowTime = u_time u * 0.08;
          breathe = sin (slowTime * 12) * 0.08;
          pulse = sin (slowTime * 10 + vy pos * 2.5) * 0.05;
          sway = sin (slowTime * 7 + vx pos * 2) * 0.035;
          noise1 = snoise_v3 (map3 (\<lambda>c. c + slowTime * 0.7) (scale3 pos 0.8)) * 0.12;
          noise2 = snoise_v3 (map3 (\<lambda>c. c + slowTime * 0.5) (scale3 pos 1.5)) * 0.06
      in (breathe + pulse + sway + noise1 + noise2) * u_amplitude u * vertBias pos)"

text \<open>
  The vertex shader embedded in main.js; the second copy of the script (unnamed/part_000)
  carries the same vertex shader, character for character.
\<close>

definition main_vertex_js :: "vertex_uniforms \<Rightarrow> vec3 \<Rightarrow> vec3 \<Rightarrow> vertex_out" where
  "main_vertex_js u position normal =
     (let pos = position;
          norm = normalize3 normal;
          displacement = displacement_js u pos;
          newPosition = map_option (\<lambda>n. add3 pos (scale3 n displacement)) norm;
          v_normal = do { n \<leftarrow> norm; normalize3 (mat3_mul (normalMatrix u) n) }
      in \<lparr> out_v_normal = v_normal,
           out_v_smoothNormal = v_normal,
           out_v_position = None,
           out_v_localPosition = Some pos,
           out_v_worldPosition =
             map_option (\<lambda>q. xyz (mat4_mul (modelMatrix u) (vec4_of q 1))) newPosition,
           out_v_displacement = None,
           out_gl_Position =
             map_option (\<lambda>q. mat4_mul (projectionMatrix u)
                                 (mat4_mul (modelViewMatrix u) (vec4_of q 1))) newPosition \<rparr>)"


section \<open>The liquid-metal fragment shader (shaders/fragment.glsl)\<close>

text \<open>
  The uniform \<open>u_time\<close> is declared by every fragment shader and read by none, so the
  record of fragment uniforms leaves it out. One record holds the varyings of all three
  fragment shaders; each reads the ones it declares.
\<close>

record fragment_uniforms =
  u_cameraPosition :: vec3
  u_keyLightPos :: vec3
  u_rimLightPos :: vec3
  u_keyLightColor :: vec3
  u_rimLightColor :: vec3
  u_keyLightIntensity :: real
  u_rimLightIntensity :: real
  u_fresnelPower :: real
  u_fresnelBias :: real
  u_absorption :: real

record varyings =
  v_normal :: vec3
  v_position :: vec3
  v_worldPosition :: vec3
  v_displacement :: real
  v_localPosition :: vec3
  v_smoothNormal :: vec3

definition fresnel :: "vec3 \<Rightarrow> vec3 \<Rightarrow> real \<Rightarrow> real \<Rightarrow> real option" where
  "fresnel viewDir normal pwr bias =
     do {
       let NdotV = max (dot3 normal viewDir) 0;
       pw \<leftarrow> pow (1 - NdotV) pwr;
       let fresnel = bias + (1 - bias) * pw;
       Some (clamp fresnel 0 1)
     }"

definition specular :: "vec3 \<Rightarrow> vec3 \<Rightarrow> vec3 \<Rightarrow> real \<Rightarrow> real option" where
  "specular lightDir viewDir normal roughness =
     do {
       halfDir \<leftarrow> normalize3 (add3 lightDir viewDir);
       let NdotH = max (dot3 normal halfDir) 0;
       pow NdotH (1 / (roughness * roughness + 0.001))
     }"

definition environmentGradient :: "vec3 \<Rightarrow> vec3" where
  "environmentGradient reflectDir =
     (let y = vy reflectDir * 0.5 + 0.5;
          bottomColor = Vec3 0.02 0.02 0.03;
          midColor = Vec3 0.04 0.045 0.06;
          topColor = Vec3 0.06 0.065 0.09;
          env = mix3 bottomColor midColor (smoothstep 0 0.5 y);
          env = mix3 env topColor (smoothstep 0.5 1 y);
          highlightZone = smoothstep 0.6 0.9 y * smoothstep 0.3 0 \<bar>vx reflectDir - 0.3\<bar>
      in add3 env (scale3 (scale3 (Vec3 0.08 0.07 0.05) highlightZone) 0.5))"

definition absorbedColor :: "fragment_uniforms \<Rightarrow> varyings \<Rightarrow> vec3" where
  "absorbedColor u v =
     (let coreColor = Vec3 0.015 0.018 0.025;
          depth = 1 - \<bar>v_displacement v\<bar> * 2;
          depth = clamp depth 0 1
      in scale3 coreColor (1 - depth * u_absorption u * 0.5))"

definition edgeColor :: "vec3 \<Rightarrow> vec3" where
  "edgeColor normal =
     (let edgeColor = Vec3 0.12 0.13 0.16;
          goldTint = scale3 (Vec3 0.15 0.12 0.08) 0.3;
          blueTint = scale3 (Vec3 0.08 0.10 0.14) 0.2;
          angleMix = dot3 normal (Vec3 0 1 0) * 0.5 + 0.5
      in mix3 (add3 edgeColor blueTint) (add3 edgeColor goldTint) angleMix)"

definition keyContribution :: "fragment_uniforms \<Rightarrow> varyings \<Rightarrow> vec3 \<Rightarrow> vec3 \<Rightarrow> vec3 option" where
  "keyContribution u v normal viewDir =
     do {
       keyLightDir \<leftarrow> normalize3 (sub3 (u_keyLightPos u) (v_worldPosition v));
       let keyDiffuse = max (dot3 normal keyLightDir) 0;
       keyDiffuse \<leftarrow> pow keyDiffuse 1.5;
       keySpec \<leftarrow> specular keyLightDir viewDir normal 0.15;
       keySpec \<leftarrow> pow keySpec 2;
       let keySpec = keySpec * 0.8;
       Some (scale3 (scale3 (u_keyLightColor u) (u_keyLightIntensity u))
                    (keyDiffuse * 0.15 + keySpec))
     }"

definition rimContribution :: "fragment_uniforms \<Rightarrow> varyings \<Rightarrow> vec3 \<Rightarrow> vec3 \<Rightarrow> vec3 option" where
  "rimContribution u v normal viewDir =
     do {
       rimLightDir \<leftarrow> normalize3 (sub3 (u_rimLightPos u) (v_worldPosition v));
       let rimDiffuse = max (dot3 normal rimLightDir) 0;
       let rimMask = 1 - max (dot3 viewDir normal) 0;
       rimMask \<leftarrow> pow rimMask 3;
       Some (scale3 (scale3 (scale3 (scale3 (u_rimLightColor u) (u_rimLightIntensity u))
                                    rimDiffuse) rimMask) 0.4)
     }"

text \<open>The colour that reaches the tone-mapping step: lines 67 to 152 of the shader.\<close>

definition composite_glsl :: "fragment_uniforms \<Rightarrow> varyings \<Rightarrow> vec3 option" where
  "composite_glsl u v =
     do {
       normal \<leftarrow> normalize3 (v_normal v);
       viewDir \<leftarrow> normalize3 (sub3 (u_cameraPosition u) (v_worldPosition v));
       let reflectDir = reflect (neg3 viewDir) normal;
       fresnelTerm \<leftarrow> fresnel viewDir normal (u_fresnelPower u) (u_fresnelBias u);
       let envColor = environmentGradient reflectDir;
       keyContribution \<leftarrow> keyContribution u v normal viewDir;
       rimContribution \<leftarrow> rimContribution u v normal viewDir;
       let finalColor = absorbedColor u v;
       let finalColor = add3 finalColor (scale3 (scale3 envColor fresnelTerm) 0.6);
       let finalColor = add3 finalColor
             (scale3 (scale3 (scale3 (edgeColor normal) fresnelTerm) fresnelTerm) 0.4);
       let finalColor = add3 finalColor keyContribution;
       let finalColor = add3 finalColor rimContribution;
       let surfaceVar = v_displacement v * 0.5 + 0.5;
       Some (scale3 finalColor (0.95 + surfaceVar * 0.1))
     }"

text \<open>
  Reinhard tone mapping and the contrast exponent, channel by channel. The colour is
  treated as undefined as soon as one of its channels is.
\<close>

definition tonemap_glsl :: "vec3 \<Rightarrow> vec3 option" where
  "tonemap_glsl finalColor =
     do {
       r \<leftarrow> divide_g (vx finalColor) (vx finalColor + 1);
       g \<leftarrow> divide_g (vy finalColor) (vy finalColor + 1);
       b \<leftarrow> divide_g (vz finalColor) (vz finalColor + 1);
       r \<leftarrow> pow r 1.05;
       g \<leftarrow> pow g 1.05;
       b \<leftarrow> pow b 1.05;
       Some (Vec3 r g b)
     }"

definition main_fragment_glsl :: "fragment_uniforms \<Rightarrow> varyings \<Rightarrow> vec4 option" where
  "main_fragment_glsl u v =
     do {
       finalColor \<leftarrow> composite_glsl u v;
       finalColor \<leftarrow> tonemap_glsl finalColor;
       Some (vec4_of finalColor 1)
     }"

section \<open>The fragment shaders embedded in the scripts\<close>

definition PI :: real where
  "PI = 3.14159265359"

definition D_GGX :: "real \<Rightarrow> real \<Rightarrow> real" where
  "D_GGX NdotH roughness =
     (let a = roughness * roughness;
          a2 = a * a;
          d = (NdotH * NdotH) * (a2 - 1) + 1
      in a2 / (PI * d * d + 0.0001))"

definition F_Schlick :: "real \<Rightarrow> vec3 \<Rightarrow> vec3 option" where
  "F_Schlick VdotH F0 =
     do {
       p \<leftarrow> pow (max (1 - VdotH) 0) 5;
       Some (add3 F0 (scale3 (map3 (\<lambda>c. 1 - c) F0) p))
     }"

definition atan_g :: "real \<Rightarrow> real \<Rightarrow> real option" where
  \<comment> \<open>two-argument arc tangent: the angle of the point (x, y), undefined at the origin\<close>
  "atan_g y x =
     (if 0 < x then Some (arctan (y / x))
      else if x < 0 then (if 0 \<le> y then Some (arctan (y / x) + pi) else Some (arctan (y / x) - pi))
      else if 0 < y then Some (pi / 2)
      else if y < 0 then Some (- pi / 2)
      else None)"

definition sampleEnv :: "vec3 \<Rightarrow> vec3 option" where
  "sampleEnv R =
     do {
       let y = vy R * 0.5 + 0.5;
       a \<leftarrow> atan_g (vz R) (vx R);
       let x = a / (2 * PI) + 0.5;
       let env = Vec3 0.015 0.015 0.025;
       let topZone = smoothstep 0.45 0.92 y;
       let env = add3 env (scale3 (Vec3 0.6 0.45 0.18) topZone);
       let leftWarm = smoothstep 0.5 0.08 x * smoothstep 0 0.5 y;
       let env = add3 env (scale3 (scale3 (Vec3 0.6 0.35 0.1) leftWarm) 0.8);
       let rightBlue = smoothstep 0.5 0.95 x * smoothstep 0.1 0.6 y;
       let env = add3 env (scale3 (scale3 (Vec3 0.12 0.25 0.65) rightBlue) 0.6);
       let topHL = smoothstep 0.72 0.99 y;
       let env = add3 env (scale3 (scale3 (Vec3 1 0.94 0.8) topHL) 0.9);
       Some env
     }"

subsection \<open>main.js\<close>

definition internalColor_js :: "real \<Rightarrow> real \<Rightarrow> vec3 option" where
  "internalColor_js NdotV yPos =
     do {
       let navyZone = smoothstep 0.6 (- 0.5) yPos;
       let navyColor = Vec3 0.02 0.06 0.18;
       let goldColor = Vec3 0.25 0.16 0.05;
       let internalColor = mix3 goldColor navyColor navyZone;
       depthFade \<leftarrow> pow NdotV 0.8;
       let deepShadow = Vec3 0.01 0.02 0.05;
       Some (mix3 deepShadow internalColor (0.5 + depthFade * 0.5))
     }"

definition envReflection_js :: "real \<Rightarrow> vec3 \<Rightarrow> vec3 option" where
  "envReflection_js edgeFactor R =
     do {
       glassFresnel \<leftarrow> pow edgeFactor 2;
       envColor \<leftarrow> sampleEnv R;
       Some (scale3 (scale3 envColor glassFresnel) 1.2)
     }"

definition rimColor_js :: "real \<Rightarrow> real \<Rightarrow> vec3 option" where
  "rimColor_js edgeFactor yPos =
     do {
       rimBand \<leftarrow> pow edgeFactor 8;
       let topMask = smoothstep (- 0.2) 0.35 yPos;
       Some (scale3 (scale3 (scale3 (Vec3 1 0.96 0.88) rimBand) topMask) 2.5)
     }"

definition leftGlow_js :: "real \<Rightarrow> real \<Rightarrow> real \<Rightarrow> vec3 option" where
  "leftGlow_js edgeFactor xPos yPos =
     do {
       let leftEdge = smoothstep 0.3 (- 0.7) xPos;
       let leftHeight = smoothstep (- 0.6) 0.5 yPos;
       leftFresnel \<leftarrow> pow edgeFactor 1.8;
       let leftIntensity = leftEdge * leftHeight * leftFresnel;
       Some (scale3 (scale3 (Vec3 1 0.65 0.25) leftIntensity) 1.8)
     }"

definition leftWarm_js :: "real \<Rightarrow> real \<Rightarrow> real \<Rightarrow> vec3 option" where
  "leftWarm_js edgeFactor xPos yPos =
     do {
       let leftHeight = smoothstep (- 0.6) 0.5 yPos;
       let leftSoft = smoothstep 0.5 (- 0.9) xPos * leftHeight;
       p \<leftarrow> pow edgeFactor 2.5;
       Some (scale3 (scale3 (scale3 (Vec3 0.6 0.35 0.1) leftSoft) p) 0.8)
     }"

definition rightGlow_js :: "real \<Rightarrow> real \<Rightarrow> real \<Rightarrow> vec3 option" where
  "rightGlow_js edgeFactor xPos yPos =
     do {
       let rightEdge = smoothstep (- 0.1) 0.7 xPos;
       let rightMid = smoothstep (- 0.3) 0.4 yPos * (1 - smoothstep 0.5 0.9 yPos);
       rightFresnel \<leftarrow> pow edgeFactor 2.2;
       let rightIntensity = rightEdge * rightMid * rightFresnel;
       Some (scale3 (scale3 (Vec3 0.15 0.35 0.7) rightIntensity) 1)
     }"

definition spec1_js :: "vec3 \<Rightarrow> vec3 \<Rightarrow> vec3 option" where
  "spec1_js N V =
     do {
       L1 \<leftarrow> normalize3 (Vec3 (- 0.55) 0.8 0.35);
       H1 \<leftarrow> normalize3 (add3 V L1);
       let NdotH1 = max (dot3 N H1) 0;
       let NdotL1 = max (dot3 N L1) 0;
       let VdotH1 = max (dot3 V H1) 0;
       let D1 = D_GGX NdotH1 0.025;
       F1 \<leftarrow> F_Schlick VdotH1 (Vec3 1 0.92 0.75);
       Some (scale3 (mul3 (scale3 (scale3 F1 D1) NdotL1) (Vec3 1 0.95 0.85)) 1.2)
     }"

definition spec2_js :: "vec3 \<Rightarrow> vec3 \<Rightarrow> vec3 option" where
  "spec2_js N V =
     do {
       L2 \<leftarrow> normalize3 (Vec3 0.5 0.5 0.5);
       H2 \<leftarrow> normalize3 (add3 V L2);
       let NdotH2 = max (dot3 N H2) 0;
       let NdotL2 = max (dot3 N L2) 0;
       let D2 = D_GGX NdotH2 0.05;
       Some (scale3 (scale3 (Vec3 0.9 0.85 0.7) (D2 * NdotL2)) 0.25)
     }"

definition edgeHighlight_js :: "real \<Rightarrow> vec3 option" where
  "edgeHighlight_js edgeFactor =
     do {
       edgeDefine \<leftarrow> pow edgeFactor 3.5;
       Some (scale3 (scale3 (Vec3 0.6 0.5 0.32) edgeDefine) 0.35)
     }"

definition composite_js :: "fragment_uniforms \<Rightarrow> varyings \<Rightarrow> vec3 option" where
  "composite_js u v =
     do {
       N \<leftarrow> normalize3 (v_smoothNormal v);
       V \<leftarrow> normalize3 (sub3 (u_cameraPosition u) (v_worldPosition v));
       let R = reflect (neg3 V) N;
       let NdotV = max (dot3 N V) 0;
       let edgeFactor = 1 - NdotV;
       let yPos = vy (v_localPosition v);
       let xPos = vx (v_localPosition v);
       internalColor \<leftarrow> internalColor_js NdotV yPos;
       envReflection \<leftarrow> envReflection_js edgeFactor R;
       rimColor \<leftarrow> rimColor_js edgeFactor yPos;
       leftGlow \<leftarrow> leftGlow_js edgeFactor xPos yPos;
       leftWarm \<leftarrow> leftWarm_js edgeFactor xPos yPos;
       rightGlow \<leftarrow> rightGlow_js edgeFactor xPos yPos;
       spec1 \<leftarrow> spec1_js N V;
       spec2 \<leftarrow> spec2_js N V;
       edgeHighlight \<leftarrow> edgeHighlight_js edgeFactor;
       let finalColor = scale3 internalColor 0.35;
       let finalColor = add3 finalColor envReflection;
       let finalColor = add3 finalColor rimColor;
       let finalColor = add3 finalColor leftGlow;
       let finalColor = add3 finalColor leftWarm;
       let finalColor = add3 finalColor rightGlow;
       let finalColor = add3 finalColor spec1;
       let finalColor = add3 finalColor spec2;
       let finalColor = add3 finalColor edgeHighlight;
       Some finalColor
     }"

definition filmic_js :: "real \<Rightarrow> real option" where
  "filmic_js x =
     (let a = 2.4; b = 0.025; c = 2.2; d = 0.58; e = 0.13
      in map_option (\<lambda>q. clamp q 0 1) (divide_g (x * (a * x + b)) (x * (c * x + d) + e)))"

definition tonemap_js :: "vec3 \<Rightarrow> vec3 option" where
  "tonemap_js finalColor =
     do {
       r \<leftarrow> filmic_js (vx finalColor);
       g \<leftarrow> filmic_js (vy finalColor);
       b \<leftarrow> filmic_js (vz finalColor);
       r \<leftarrow> pow r 0.9;
       g \<leftarrow> pow g 0.95;
       b \<leftarrow> pow b 1;
       Some (Vec3 r g b)
     }"

definition main_fragment_js :: "fragment_uniforms \<Rightarrow> varyings \<Rightarrow> vec4 option" where
  "main_fragment_js u v =
     do {
       finalColor \<leftarrow> composite_js u v;
       finalColor \<leftarrow> tonemap_js finalColor;
       Some (vec4_of finalColor 1)
     }"

subsection \<open>The second copy of the script (unnamed/part_000)\<close>

definition glassCore_p0 :: "real \<Rightarrow> real \<Rightarrow> vec3 option" where
  "glassCore_p0 NdotV yPos =
     do {
       let depthZone = smoothstep 0.5 (- 0.6) yPos;
       let deepBlue = Vec3 0.015 0.04 0.12;
       let warmAmber = Vec3 0.15 0.09 0.025;
       let glassCore = mix3 warmAmber deepBlue depthZone;
       glassDepth \<leftarrow> pow NdotV 1.2;
       Some (scale3 glassCore (0.4 + glassDepth * 0.6))
     }"

definition reflection_p0 :: "real \<Rightarrow> vec3 \<Rightarrow> vec3 option" where
  "reflection_p0 fresnel' R =
     do {
       fresnelPow \<leftarrow> pow fresnel' 2.2;
       env \<leftarrow> sampleEnv R;
       Some (scale3 (scale3 env fresnelPow) 0.85)
     }"

definition rimLight_p0 :: "real \<Rightarrow> real \<Rightarrow> vec3 option" where
  "rimLight_p0 fresnel' yPos =
     do {
       rim \<leftarrow> pow fresnel' 10;
       let rimMask = smoothstep (- 0.15) 0.4 yPos;
       Some (scale3 (scale3 (scale3 (Vec3 1 0.97 0.9) rim) rimMask) 1.8)
     }"

definition leftLight_p0 :: "real \<Rightarrow> real \<Rightarrow> real \<Rightarrow> vec3 option" where
  "leftLight_p0 fresnel' xPos yPos =
     do {
       let leftF = smoothstep 0.2 (- 0.65) xPos;
       let leftH = smoothstep (- 0.5) 0.45 yPos;
       p \<leftarrow> pow fresnel' 2;
       let leftInt = leftF * leftH * p;
       Some (scale3 (scale3 (Vec3 0.9 0.55 0.18) leftInt) 1.4)
     }"

definition rightLight_p0 :: "real \<Rightarrow> real \<Rightarrow> real \<Rightarrow> vec3 option" where
  "rightLight_p0 fresnel' xPos yPos =
     do {
       let rightF = smoothstep (- 0.05) 0.6 xPos;
       let rightH = smoothstep (- 0.2) 0.35 yPos * (1 - smoothstep 0.5 0.85 yPos);
       p \<leftarrow> pow fresnel' 2.5;
       let rightInt = rightF * rightH * p;
       Some (scale3 (scale3 (Vec3 0.12 0.28 0.55) rightInt) 0.8)
     }"

definition spec_p0 :: "vec3 \<Rightarrow> vec3 \<Rightarrow> vec3 option" where
  "spec_p0 N V =
     do {
       L \<leftarrow> normalize3 (Vec3 (- 0.5) 0.75 0.4);
       H \<leftarrow> normalize3 (add3 V L);
       let NdotH = max (dot3 N H) 0;
       let NdotL = max (dot3 N L) 0;
       let VdotH = max (dot3 V H) 0;
       let D = D_GGX NdotH 0.018;
       F \<leftarrow> F_Schlick VdotH (Vec3 0.95 0.88 0.7);
       Some (scale3 (mul3 (scale3 (scale3 F D) NdotL) (Vec3 1 0.96 0.88)) 0.9)
     }"

definition edgeColor_p0 :: "real \<Rightarrow> vec3 option" where
  "edgeColor_p0 fresnel' =
     do {
       edge \<leftarrow> pow fresnel' 4;
       Some (scale3 (scale3 (Vec3 0.5 0.4 0.25) edge) 0.3)
     }"

definition composite_p0 :: "fragment_uniforms \<Rightarrow> varyings \<Rightarrow> vec3 option" where
  "composite_p0 u v =
     do {
       N \<leftarrow> normalize3 (v_smoothNormal v);
       V \<leftarrow> normalize3 (sub3 (u_cameraPosition u) (v_worldPosition v));
       let R = reflect (neg3 V) N;
       let NdotV = max (dot3 N V) 0;
       let fresnel = 1 - NdotV;
       let yPos = vy (v_localPosition v);
       let xPos = vx (v_localPosition v);
       glassCore \<leftarrow> glassCore_p0 NdotV yPos;
       reflection \<leftarrow> reflection_p0 fresnel R;
       rimLight \<leftarrow> rimLight_p0 fresnel yPos;
       leftLight \<leftarrow> leftLight_p0 fresnel xPos yPos;
       rightLight \<leftarrow> rightLight_p0 fresnel xPos yPos;
       spec \<leftarrow> spec_p0 N V;
       edgeColor \<leftarrow> edgeColor_p0 fresnel;
       let color = scale3 glassCore 0.25;
       let color = add3 color reflection;
       let color = add3 color rimLight;
       let color = add3 color leftLight;
       let color = add3 color rightLight;
       let color = add3 color spec;
       let color = add3 color edgeColor;
       Some color
     }"

definition tonemap_p0 :: "vec3 \<Rightarrow> vec3 option" where
  "tonemap_p0 color =
     do {
       r \<leftarrow> divide_g (vx color) (vx color + 0.5);
       g \<leftarrow> divide_g (vy color) (vy color + 0.5);
       b \<leftarrow> divide_g (vz color) (vz color + 0.5);
       r \<leftarrow> pow r 0.92;
       g \<leftarrow> pow g 0.95;
       b \<leftarrow> pow b 1;
       Some (Vec3 r g b)
     }"

definition main_fragment_p0 :: "fragment_uniforms \<Rightarrow> varyings \<Rightarrow> vec4 option" where
  "main_fragment_p0 u v =
     do {
       color \<leftarrow> composite_p0 u v;
       color \<leftarrow> tonemap_p0 color;
       Some (vec4_of color 1)
     }"

section \<open>Sample inputs\<close>




definition nonneg3 :: "vec3 \<Rightarrow> bool" where
  "nonneg3 c \<longleftrightarrow> 0 \<le> vx c \<and> 0 \<le> vy c \<and> 0 \<le> vz c"

definition unit_range3 :: "vec3 \<Rightarrow> bool" where
  "unit_range3 c \<longleftrightarrow> 0 \<le> vx c \<and> vx c \<le> 1 \<and> 0 \<le> vy c \<and> vy c \<le> 1 \<and> 0 \<le> vz c \<and> vz c \<le> 1"

abbreviation sample_lights :: fragment_uniforms where
  "sample_lights \<equiv> \<lparr> u_cameraPosition = Vec3 3 0 4, u_keyLightPos = Vec3 0 0 2,
     u_rimLightPos = Vec3 0 2 0, u_keyLightColor = Vec3 1 0.95 0.9,
     u_rimLightColor = Vec3 0.6 0.7 1, u_keyLightIntensity = 1, u_rimLightIntensity = 0.5,
     u_fresnelPower = 3, u_fresnelBias = 0.1, u_absorption = 0.8 \<rparr>"

abbreviation sample_fragment :: varyings where
  "sample_fragment \<equiv> \<lparr> v_normal = Vec3 0 0 1, v_position = Vec3 0.2 0.1 1,
     v_worldPosition = Vec3 0 0 0, v_displacement = 0.1, v_localPosition = Vec3 0.2 0.1 1,
     v_smoothNormal = Vec3 0 0 1 \<rparr>"

abbreviation head_on_unlit :: "real \<Rightarrow> real \<Rightarrow> fragment_uniforms" where
  "head_on_unlit bias absorption \<equiv> \<lparr> u_cameraPosition = Vec3 0 0 5, u_keyLightPos = Vec3 0 0 2,
     u_rimLightPos = Vec3 0 2 0, u_keyLightColor = Vec3 1 0.95 0.9,
     u_rimLightColor = Vec3 0.6 0.7 1, u_keyLightIntensity = 0, u_rimLightIntensity = 0,
     u_fresnelPower = 3, u_fresnelBias = bias, u_absorption = absorption \<rparr>"

abbreviation facing_fragment :: varyings where
  "facing_fragment \<equiv> \<lparr> v_normal = Vec3 0 0 1, v_position = Vec3 0 0 1,
     v_worldPosition = Vec3 0 0 0, v_displacement = 0, v_localPosition = Vec3 0 0 1,
     v_smoothNormal = Vec3 0 0 1 \<rparr>"

section \<open>Facts about the built-ins\<close>

lemma clamp_bounds: "lo \<le> hi \<Longrightarrow> lo \<le> clamp x lo hi \<and> clamp x lo hi \<le> hi"
  by (simp add: clamp_def min_def max_def)

lemma smoothstep_range: "0 \<le> smoothstep e0 e1 x \<and> smoothstep e0 e1 x \<le> 1"
proof -
  define t where "t = clamp ((x - e0) / (e1 - e0)) 0 1"
  have t: "0 \<le> t" "t \<le> 1" using clamp_bounds [of 0 1] by (simp_all add: t_def)
  have eq: "smoothstep e0 e1 x = t * t * (3 - 2 * t)"
    by (simp add: smoothstep_def t_def Let_def)
  have "0 \<le> t * t * (3 - 2 * t)" using t by (intro mult_nonneg_nonneg) auto
  moreover have "1 - t * t * (3 - 2 * t) = (1 - t) * (1 - t) * (1 + 2 * t)"
    by (simp add: algebra_simps)
  moreover have "0 \<le> (1 - t) * (1 - t) * (1 + 2 * t)" using t by (intro mult_nonneg_nonneg) auto
  ultimately show ?thesis using eq by linarith
qed

lemma pow_nonneg: "pow x y = Some p \<Longrightarrow> 0 \<le> p"
  by (auto simp: pow_def split: if_splits)

lemma pow_le_one: "pow x y = Some p \<Longrightarrow> x \<le> 1 \<Longrightarrow> 0 \<le> y \<Longrightarrow> p \<le> 1"
  by (auto simp: pow_def powr_le_one_le split: if_splits intro: powr_le1)

lemma pow_defined: "0 \<le> x \<Longrightarrow> 0 < y \<Longrightarrow> pow x y = Some (x powr y)"
  by (simp add: pow_def)

lemma length3_zero_iff: "length3 a = 0 \<longleftrightarrow> a = Vec3 0 0 0"
proof -
  have "dot3 a a = 0 \<longleftrightarrow> vx a = 0 \<and> vy a = 0 \<and> vz a = 0"
    unfolding dot3_def
    by (metis add_nonneg_eq_0_iff mult_eq_0_iff zero_le_square add_nonneg_nonneg)
  then show ?thesis
    by (cases a) (simp add: length3_def)
qed

lemma normalize3_None_iff: "normalize3 a = None \<longleftrightarrow> a = Vec3 0 0 0"
  by (simp add: normalize3_def length3_zero_iff)

lemma dot3_scale3: "dot3 (scale3 a k) (scale3 b l) = k * l * dot3 a b"
  by (simp add: dot3_def scale3_def algebra_simps)

lemma dot3_self_nonneg: "0 \<le> dot3 a a"
  by (simp add: dot3_def)

lemma length3_nonneg: "0 \<le> length3 a"
  by (simp add: length3_def dot3_self_nonneg)

lemma length3_square: "length3 a * length3 a = dot3 a a"
  by (simp add: length3_def dot3_self_nonneg)

lemma normalize3_unit: "normalize3 a = Some n \<Longrightarrow> dot3 n n = 1"
proof -
  assume h: "normalize3 a = Some n"
  then have nz: "length3 a \<noteq> 0" and n: "n = scale3 a (1 / length3 a)"
    by (auto simp: normalize3_def split: if_splits)
  have "dot3 n n = dot3 a a / (length3 a * length3 a)"
    by (simp add: n dot3_scale3)
  also have "\<dots> = 1" using nz by (simp add: length3_square [symmetric])
  finally show ?thesis .
qed

lemma cauchy3: "(dot3 a b)\<^sup>2 \<le> dot3 a a * dot3 b b"
proof -
  have "dot3 a a * dot3 b b - (dot3 a b)\<^sup>2 =
        (vx a * vy b - vy a * vx b)\<^sup>2 + (vx a * vz b - vz a * vx b)\<^sup>2 + (vy a * vz b - vz a * vy b)\<^sup>2"
    by (simp add: dot3_def power2_eq_square algebra_simps)
  moreover have "0 \<le> (vx a * vy b - vy a * vx b)\<^sup>2 + (vx a * vz b - vz a * vx b)\<^sup>2 + (vy a * vz b - vz a * vy b)\<^sup>2"
    by simp
  ultimately show ?thesis by linarith
qed

lemma dot3_unit_le: "dot3 a a = 1 \<Longrightarrow> dot3 b b = 1 \<Longrightarrow> \<bar>dot3 a b\<bar> \<le> 1"
  using cauchy3 [of a b] by (simp add: abs_le_square_iff [of _ 1, simplified] power2_eq_square)

lemma normalize3_scale: "0 < k \<Longrightarrow> normalize3 (scale3 a k) = normalize3 a"
proof -
  assume k: "0 < k"
  have l: "length3 (scale3 a k) = k * length3 a"
    using k by (simp add: length3_def dot3_scale3 real_sqrt_mult)
  have s: "scale3 (scale3 a k) (1 / (k * length3 a)) = scale3 a (1 / length3 a)"
    using k by (simp add: scale3_def)
  show ?thesis
    using k by (simp add: normalize3_def l s)
qed

lemma mat3_mul_scale3: "mat3_mul m (scale3 a k) = scale3 (mat3_mul m a) k"
  by (cases m) (simp add: mat3_mul_def scale3_def add3_def algebra_simps)

lemma vertex_normal_eq:
  "(normalize3 normal \<bind> (\<lambda>n. normalize3 (mat3_mul M n))) =
   (if normal = Vec3 0 0 0 then None else normalize3 (mat3_mul M normal))"
proof (cases "normal = Vec3 0 0 0")
  case True
  then show ?thesis using normalize3_None_iff [of normal] by simp
next
  case False
  then have nz: "length3 normal \<noteq> 0" by (simp add: length3_zero_iff)
  have "0 \<le> length3 normal" by (rule length3_nonneg)
  with nz have pos: "0 < 1 / length3 normal" by simp
  have "normalize3 normal = Some (scale3 normal (1 / length3 normal))"
    using nz by (simp add: normalize3_def)
  then show ?thesis
    using False by (simp add: mat3_mul_scale3 normalize3_scale [OF pos])
qed

section \<open>The shading normal of the vertex deformers\<close>

text \<open>
  Claim C10. In both vertex shaders the shading normal written to \<open>v_normal\<close> is the
  normalised normal-matrix transform of the rest normal (undefined for a zero rest normal):
  it is the same in two runs that differ only in the time and the displacement amplitude,
  so the displacement moves the position and leaves the lighting normal alone.
\<close>

theorem vertex_normal_independent:
  "out_v_normal (main_vertex_glsl (u\<lparr>u_time := t, u_amplitude := a\<rparr>) pos normal)
     = out_v_normal (main_vertex_glsl u pos normal)
   \<and> out_v_normal (main_vertex_js (u\<lparr>u_time := t, u_amplitude := a\<rparr>) pos normal)
     = out_v_normal (main_vertex_js u pos normal)
   \<and> out_v_normal (main_vertex_glsl u pos normal)
     = (if normal = Vec3 0 0 0 then None else normalize3 (mat3_mul (normalMatrix u) normal))
   \<and> out_v_normal (main_vertex_js u pos normal)
     = (if normal = Vec3 0 0 0 then None else normalize3 (mat3_mul (normalMatrix u) normal))
   \<and> out_v_smoothNormal (main_vertex_js u pos normal) = out_v_normal (main_vertex_js u pos normal)"
  by (simp add: main_vertex_glsl_def main_vertex_js_def Let_def vertex_normal_eq)

section \<open>Zero amplitude\<close>

lemma fbm_3:
  "fbm p 3 = Some ((0.5 * snoise_v4 (scale4 p 1) + 0.25 * snoise_v4 (scale4 p 2)
                    + 0.125 * snoise_v4 (scale4 p 4)) / 0.875)"
  by (simp add: fbm_def divide_g_def fbm_loop.simps [of 0] fbm_loop.simps [of 1]
      fbm_loop.simps [of 2] fbm_loop.simps [of 3])






section \<open>Evaluating the 4D noise\<close>

text \<open>
  The body of \<open>snoise_v4\<close> names every intermediate value once. Read as a chain of
  equations it lets the kernel evaluate the noise at a rational point one value at a time.
\<close>

lemma snoise_v4_staged:
  assumes "C = Vec4 0.138196601125011 0.276393202250021 0.414589803375032 (- 0.447213595499958)"
    and "i = map4 floor_r (map4 (\<lambda>c. c + dot4 v (Vec4 F4 F4 F4 F4)) v)"
    and "x0 = map4 (\<lambda>c. c + dot4 i (Vec4 (wx C) (wx C) (wx C) (wx C))) (sub4 v i)"
    and "isX = Vec3 (step (wy x0) (wx x0)) (step (wz x0) (wx x0)) (step (ww x0) (wx x0))"
    and "isYZ = Vec3 (step (wz x0) (wy x0)) (step (ww x0) (wy x0)) (step (ww x0) (wz x0))"
    and "i0 = Vec4 (vx isX + vy isX + vz isX)
                    ((1 - vx isX) + (vx isYZ + vy isYZ))
                    (((1 - vy isX) + (1 - vx isYZ)) + vz isYZ)
                    (((1 - vz isX) + (1 - vy isYZ)) + (1 - vz isYZ))"
    and "i3 = map4 (\<lambda>c. clamp c 0 1) i0"
    and "i2 = map4 (\<lambda>c. clamp (c - 1) 0 1) i0"
    and "i1 = map4 (\<lambda>c. clamp (c - 2) 0 1) i0"
    and "x1 = map4 (\<lambda>c. c + wx C) (sub4 x0 i1)"
    and "x2 = map4 (\<lambda>c. c + wy C) (sub4 x0 i2)"
    and "x3 = map4 (\<lambda>c. c + wz C) (sub4 x0 i3)"
    and "x4 = map4 (\<lambda>c. c + ww C) x0"
    and "im = map4 mod289 i"
    and "j0 = permute (permute (permute (permute (ww im) + wz im) + wy im) + wx im)"
    and "j1 = map4 permute (add4 (map4 (\<lambda>c. c + wx im)
                 (map4 permute (add4 (map4 (\<lambda>c. c + wy im)
                   (map4 permute (add4 (map4 (\<lambda>c. c + wz im)
                     (map4 permute (map4 (\<lambda>c. ww im + c) (Vec4 (ww i1) (ww i2) (ww i3) 1))))
                     (Vec4 (wz i1) (wz i2) (wz i3) 1))))
                   (Vec4 (wy i1) (wy i2) (wy i3) 1))))
                 (Vec4 (wx i1) (wx i2) (wx i3) 1))"
    and "ip = Vec4 (1 / 294) (1 / 49) (1 / 7) 0"
    and "g0 = grad4 j0 ip"
    and "g1 = grad4 (wx j1) ip"
    and "g2 = grad4 (wy j1) ip"
    and "g3 = grad4 (wz j1) ip"
    and "g4 = grad4 (ww j1) ip"
    and "nrm = map4 taylorInvSqrt (Vec4 (dot4 g0 g0) (dot4 g1 g1) (dot4 g2 g2) (dot4 g3 g3))"
    and "p0 = scale4 g0 (wx nrm)"
    and "p1 = scale4 g1 (wy nrm)"
    and "p2 = scale4 g2 (wz nrm)"
    and "p3 = scale4 g3 (ww nrm)"
    and "p4 = scale4 g4 (taylorInvSqrt (dot4 g4 g4))"
    and "m0a = map3 (\<lambda>c. max (0.6 - c) 0) (Vec3 (dot4 x0 x0) (dot4 x1 x1) (dot4 x2 x2))"
    and "m1a = Vec2 (max (0.6 - dot4 x3 x3) 0) (max (0.6 - dot4 x4 x4) 0)"
    and "m0 = mul3 m0a m0a"
    and "m1 = Vec2 (px m1a * px m1a) (py m1a * py m1a)"
  shows "snoise_v4 v = 49 * (dot3 (mul3 m0 m0) (Vec3 (dot4 p0 x0) (dot4 p1 x1) (dot4 p2 x2))
             + dot2 (Vec2 (px m1 * px m1) (py m1 * py m1)) (Vec2 (dot4 p3 x3) (dot4 p4 x4)))"
  unfolding snoise_v4_def Let_def assms [symmetric] by (rule refl)

lemmas vec_ops = map4_def map3_def add4_def sub4_def mul3_def mul4_def scale4_def scale3_def
  dot4_def dot3_def dot2_def add3_def sub3_def

lemmas num_ops = floor_r_def fract_def step_def clamp_def mod289_def permute_def
  taylorInvSqrt_def F4_def grad4_def


lemma snoise_v4_sample0: "\<bar>snoise_v4 (Vec4 0.5 0.25 (- 0.5) 0.125)\<bar> \<le> 1"
  apply (rule ord_eq_le_trans [OF arg_cong [where f = abs, OF snoise_v4_staged]])
  apply (simp add: vec_ops num_ops)+
  done

lemma snoise_v4_sample1: "\<bar>snoise_v4 (Vec4 1 0.5 (- 1) 0.25)\<bar> \<le> 1"
  apply (rule ord_eq_le_trans [OF arg_cong [where f = abs, OF snoise_v4_staged]])
  apply (simp add: vec_ops num_ops)+
  done

lemma snoise_v4_sample2: "\<bar>snoise_v4 (Vec4 2 1 (- 2) 0.5)\<bar> \<le> 1"
  apply (rule ord_eq_le_trans [OF arg_cong [where f = abs, OF snoise_v4_staged]])
  apply (simp add: vec_ops num_ops)+
  done

section \<open>Fractal Brownian motion\<close>

lemma fbm_1:
  "fbm p 1 = Some ((0.5 * snoise_v4 (scale4 p 1)) / 0.5)"
  by (simp add: fbm_def divide_g_def fbm_loop.simps [of 0] fbm_loop.simps [of 1])

lemma fbm_2:
  "fbm p 2 = Some ((0.5 * snoise_v4 (scale4 p 1) + 0.25 * snoise_v4 (scale4 p 2)) / 0.75)"
  by (simp add: fbm_def divide_g_def fbm_loop.simps [of 0] fbm_loop.simps [of 1]
      fbm_loop.simps [of 2])

lemma fbm_ge4:
  "4 \<le> octaves \<Longrightarrow> fbm p octaves = Some ((0.5 * snoise_v4 (scale4 p 1) + 0.25 * snoise_v4 (scale4 p 2)
                    + 0.125 * snoise_v4 (scale4 p 4) + 0.0625 * snoise_v4 (scale4 p 8)) / 0.9375)"
  by (simp add: fbm_def divide_g_def fbm_loop.simps [of 0] fbm_loop.simps [of 1]
      fbm_loop.simps [of 2] fbm_loop.simps [of 3] fbm_loop.simps [of 4])

lemma fbm_bounded:
  assumes "1 \<le> octaves"
    and "\<forall>k<4. int k < octaves \<longrightarrow> \<bar>snoise_v4 (scale4 p (2 ^ k))\<bar> \<le> B"
  shows "\<exists>y. fbm p octaves = Some y \<and> \<bar>y\<bar> \<le> B
     \<and> y = (\<Sum>k<nat (min octaves 4). snoise_v4 (scale4 p (2 ^ k)) / 2 ^ (k + 1))
           / (\<Sum>k<nat (min octaves 4). 1 / 2 ^ (k + 1))"
proof -
  define s where "s k = snoise_v4 (scale4 p (2 ^ k))" for k :: nat
  have s0: "snoise_v4 (scale4 p 1) = s 0" and s1: "snoise_v4 (scale4 p 2) = s 1"
    and s2: "snoise_v4 (scale4 p 4) = s 2" and s3: "snoise_v4 (scale4 p 8) = s 3"
    by (simp_all add: s_def)
  have b: "k < 4 \<Longrightarrow> int k < octaves \<Longrightarrow> \<bar>s k\<bar> \<le> B" for k
    using assms(2) by (simp add: s_def)
  consider "octaves = 1" | "octaves = 2" | "octaves = 3" | "4 \<le> octaves"
    using assms(1) by linarith
  then have "\<exists>y. fbm p octaves = Some y \<and> \<bar>y\<bar> \<le> B
     \<and> y = (\<Sum>k<nat (min octaves 4). s k / 2 ^ (k + 1))
           / (\<Sum>k<nat (min octaves 4). 1 / 2 ^ (k + 1))"
  proof cases
    case 1
    have "\<bar>s 0\<bar> \<le> B" using b [of 0] 1 by simp
    then show ?thesis by (simp add: 1 fbm_1 s0)
  next
    case 2
    let ?y = "(0.5 * s 0 + 0.25 * s 1) / 0.75"
    have "\<bar>s 0\<bar> \<le> B" "\<bar>s 1\<bar> \<le> B" using b [of 0] b [of 1] 2 by simp_all
    then have "\<bar>?y\<bar> \<le> B" by (simp add: abs_le_iff field_simps)
    moreover have "fbm p octaves = Some ?y" by (simp add: 2 fbm_2 s0 s1)
    moreover have "?y = (\<Sum>k<nat (min octaves 4). s k / 2 ^ (k + 1))
           / (\<Sum>k<nat (min octaves 4). 1 / 2 ^ (k + 1))"
      by (simp add: 2 eval_nat_numeral field_simps)
    ultimately show ?thesis by blast
  next
    case 3
    let ?y = "(0.5 * s 0 + 0.25 * s 1 + 0.125 * s 2) / 0.875"
    have "\<bar>s 0\<bar> \<le> B" "\<bar>s 1\<bar> \<le> B" "\<bar>s 2\<bar> \<le> B"
      using b [of 0] b [of 1] b [of 2] 3 by simp_all
    then have "\<bar>?y\<bar> \<le> B" by (simp add: abs_le_iff field_simps)
    moreover have "fbm p octaves = Some ?y" by (simp add: 3 fbm_3 s0 s1 s2)
    moreover have "?y = (\<Sum>k<nat (min octaves 4). s k / 2 ^ (k + 1))
           / (\<Sum>k<nat (min octaves 4). 1 / 2 ^ (k + 1))"
      by (simp add: 3 eval_nat_numeral field_simps)
    ultimately show ?thesis by blast
  next
    case 4
    let ?y = "(0.5 * s 0 + 0.25 * s 1 + 0.125 * s 2 + 0.0625 * s 3) / 0.9375"
    have m: "min octaves 4 = 4" using 4 by simp
    have "\<bar>s 0\<bar> \<le> B" "\<bar>s 1\<bar> \<le> B" "\<bar>s 2\<bar> \<le> B" "\<bar>s 3\<bar> \<le> B"
      using b [of 0] b [of 1] b [of 2] b [of 3] 4 by simp_all
    then have "\<bar>?y\<bar> \<le> B" by (simp add: abs_le_iff field_simps)
    moreover have "fbm p octaves = Some ?y" by (simp add: fbm_ge4 [OF 4] s0 s1 s2 s3)
    moreover have "?y = (\<Sum>k<nat (min octaves 4). s k / 2 ^ (k + 1))
           / (\<Sum>k<nat (min octaves 4). 1 / 2 ^ (k + 1))"
      by (simp add: m eval_nat_numeral field_simps)
    ultimately show ?thesis by blast
  qed
  then show ?thesis by (simp add: s_def)
qed

text \<open>
  Claim C8. For every octave count from 1 upwards (the loop stops after four octaves),
  \<open>fbm\<close> adds the octaves with the amplitude halved and the frequency doubled at each
  step and divides by the accumulated amplitude; when the noise values it samples lie in
  [-1, 1], so does its result, whatever the octave count.
\<close>

theorem fbm_normalised:
  assumes "1 \<le> octaves"
    and "\<forall>k<4. int k < octaves \<longrightarrow>
           - 1 \<le> snoise_v4 (scale4 p (2 ^ k)) \<and> snoise_v4 (scale4 p (2 ^ k)) \<le> 1"
  shows "\<exists>y. fbm p octaves = Some y \<and> - 1 \<le> y \<and> y \<le> 1
     \<and> y = (\<Sum>k<nat (min octaves 4). snoise_v4 (scale4 p (2 ^ k)) / 2 ^ (k + 1))
           / (\<Sum>k<nat (min octaves 4). 1 / 2 ^ (k + 1))"
  using fbm_bounded [of octaves p 1] assms by (simp add: abs_le_iff)

theorem fbm_normalised_witness:
  "\<exists>y. fbm (Vec4 0.5 0.25 (- 0.5) 0.125) 3 = Some y \<and> - 1 \<le> y \<and> y \<le> 1"
proof -
  let ?p = "Vec4 0.5 0.25 (- 0.5) 0.125"
  have "\<bar>snoise_v4 (scale4 ?p (2 ^ k))\<bar> \<le> 1" if "k < 3" for k :: nat
  proof -
    from that consider "k = 0" | "k = 1" | "k = 2" by linarith
    then show ?thesis
      using snoise_v4_sample0 snoise_v4_sample1 snoise_v4_sample2
      by cases (simp_all add: scale4_def)
  qed
  then have "\<forall>k<4. int k < 3 \<longrightarrow>
           - 1 \<le> snoise_v4 (scale4 ?p (2 ^ k)) \<and> snoise_v4 (scale4 ?p (2 ^ k)) \<le> 1"
    by (simp add: abs_le_iff)
  with fbm_normalised [of 3 ?p] show ?thesis by auto
qed

section \<open>The Fresnel term\<close>

lemma fresnel_value:
  assumes "dot3 viewDir viewDir = 1" and "dot3 normal normal = 1" and "0 < pwr"
    and "0 \<le> bias" and "bias \<le> 1"
  shows "fresnel viewDir normal pwr bias
         = Some (bias + (1 - bias) * (1 - max (dot3 normal viewDir) 0) powr pwr)"
proof -
  let ?d = "max (dot3 normal viewDir) 0"
  let ?q = "(1 - ?d) powr pwr"
  have d: "0 \<le> ?d" "?d \<le> 1"
    using dot3_unit_le [OF assms(2) assms(1)] by auto
  then have p: "pow (1 - ?d) pwr = Some ?q"
    using assms(3) by (simp add: pow_def)
  have q: "0 \<le> ?q" "?q \<le> 1"
    using d assms(3) by (auto intro: powr_le1)
  have "0 \<le> (1 - bias) * ?q" "(1 - bias) * ?q \<le> (1 - bias) * 1"
    using q assms(4,5) mult_left_le [of ?q "1 - bias"] by auto
  then have "0 \<le> bias + (1 - bias) * ?q" "bias + (1 - bias) * ?q \<le> 1"
    using assms(4) by auto
  then have "clamp (bias + (1 - bias) * ?q) 0 1 = bias + (1 - bias) * ?q"
    by (simp add: clamp_def)
  then show ?thesis
    by (simp add: fresnel_def p Let_def)
qed

lemma fresnel_grazing_limit:
  assumes "0 < pwr" and "0 \<le> bias" and "bias \<le> 1" and "0 < e"
  shows "\<exists>d>0. \<forall>viewDir normal. dot3 viewDir viewDir = 1 \<longrightarrow> dot3 normal normal = 1 \<longrightarrow>
           dot3 normal viewDir < d \<longrightarrow>
           (\<exists>f. fresnel viewDir normal pwr bias = Some f \<and> \<bar>f - 1\<bar> < e)"
proof -
  define e' where "e' = min e 1 / 2"
  have e': "0 < e'" "e' < 1" "e' < e" using assms(4) by (auto simp: e'_def min_def)
  define r where "r = (1 - e') powr (1 / pwr)"
  have r0: "0 \<le> r" by (simp add: r_def)
  have "(1 - e') powr (1 / pwr) < 1 powr (1 / pwr)"
    using e' assms(1) by (intro powr_less_mono2) auto
  then have r1: "r < 1" by (simp add: r_def)
  have rp: "r powr pwr = 1 - e'"
    using e' assms(1) by (simp add: r_def powr_powr)
  have "\<exists>f. fresnel viewDir normal pwr bias = Some f \<and> \<bar>f - 1\<bar> < e"
    if u: "dot3 viewDir viewDir = 1" "dot3 normal normal = 1"
      and g: "dot3 normal viewDir < 1 - r" for viewDir normal
  proof -
    define d where "d = max (dot3 normal viewDir) 0"
    define q where "q = (1 - d) powr pwr"
    have d: "0 \<le> d" "d < 1 - r" using g r1 by (auto simp: d_def)
    then have "r < 1 - d" by linarith
    then have "r powr pwr < q"
      unfolding q_def using r0 assms(1) by (intro powr_less_mono2) auto
    then have q: "1 - e' < q" by (simp add: rp)
    have q1: "q \<le> 1" unfolding q_def using d r0 assms(1) by (intro powr_le1) auto
    define x where "x = (1 - bias) * (1 - q)"
    have "x \<le> 1 * (1 - q)"
      unfolding x_def using assms(2) q1 by (intro mult_right_mono) auto
    then have xe: "x < e" using q e' by simp
    have x0: "0 \<le> x"
      unfolding x_def using assms(3) q1 by (intro mult_nonneg_nonneg) auto
    have "\<bar>- x\<bar> < e" using xe x0 by simp
    moreover have "bias + (1 - bias) * q - 1 = - x" by (simp add: x_def algebra_simps)
    ultimately have "\<bar>bias + (1 - bias) * q - 1\<bar> < e" by simp
    then show ?thesis
      using fresnel_value [OF u assms(1,2,3)] by (simp add: q_def d_def)
  qed
  moreover have "0 < 1 - r" using r1 by simp
  ultimately show ?thesis by blast
qed

text \<open>
  Claim C6. For unit view direction and unit normal, a power above 0 and a bias in [0, 1],
  the Fresnel term is defined and lies in [0, 1]; it equals the bias when the normal is
  the view direction; it equals 1 when the two are perpendicular (or the normal faces
  away), and it tends to 1 as their dot product tends to 0.
\<close>

theorem fresnel_head_on_and_grazing:
  assumes "dot3 viewDir viewDir = 1" and "dot3 normal normal = 1" and "0 < pwr"
    and "0 \<le> bias" and "bias \<le> 1"
  shows "\<exists>f. fresnel viewDir normal pwr bias = Some f \<and> 0 \<le> f \<and> f \<le> 1
       \<and> (normal = viewDir \<longrightarrow> f = bias)
       \<and> (dot3 normal viewDir \<le> 0 \<longrightarrow> f = 1)
       \<and> (\<forall>e>0. \<exists>d>0. \<forall>w n. dot3 w w = 1 \<longrightarrow> dot3 n n = 1 \<longrightarrow> dot3 n w < d \<longrightarrow>
             (\<exists>g. fresnel w n pwr bias = Some g \<and> \<bar>g - 1\<bar> < e))"
proof -
  let ?d = "max (dot3 normal viewDir) 0"
  let ?q = "(1 - ?d) powr pwr"
  let ?f = "bias + (1 - bias) * ?q"
  have v: "fresnel viewDir normal pwr bias = Some ?f"
    by (rule fresnel_value [OF assms])
  have d: "0 \<le> ?d" "?d \<le> 1"
    using dot3_unit_le [OF assms(2) assms(1)] by auto
  have q: "0 \<le> ?q" "?q \<le> 1"
    using d assms(3) by (auto intro: powr_le1)
  have "0 \<le> (1 - bias) * ?q" "(1 - bias) * ?q \<le> (1 - bias) * 1"
    using q assms(4,5) mult_left_le [of ?q "1 - bias"] by auto
  then have r: "0 \<le> ?f" "?f \<le> 1" using assms(4) by auto
  have h: "normal = viewDir \<longrightarrow> ?f = bias"
    using assms(1,3) by (auto simp: max_def)
  have g: "dot3 normal viewDir \<le> 0 \<longrightarrow> ?f = 1"
    by (simp add: max_def)
  have l: "\<forall>e>0. \<exists>d>0. \<forall>w n. dot3 w w = 1 \<longrightarrow> dot3 n n = 1 \<longrightarrow> dot3 n w < d \<longrightarrow>
             (\<exists>g. fresnel w n pwr bias = Some g \<and> \<bar>g - 1\<bar> < e)"
    using fresnel_grazing_limit [OF assms(3,4,5)] by blast
  from v r h g l show ?thesis by blast
qed

theorem fresnel_head_on_and_grazing_witness:
  "fresnel (Vec3 0 0 1) (Vec3 0 0 1) 3 0.25 = Some 0.25
   \<and> fresnel (Vec3 1 0 0) (Vec3 0 0 1) 3 0.25 = Some 1"
proof -
  have u: "dot3 (Vec3 0 0 1) (Vec3 0 0 1) = 1" "dot3 (Vec3 1 0 0) (Vec3 1 0 0) = 1"
    by (simp_all add: dot3_def)
  have "fresnel (Vec3 0 0 1) (Vec3 0 0 1) 3 0.25 = Some 0.25"
    using fresnel_head_on_and_grazing [OF u(1) u(1), of 3 "0.25"] by auto
  moreover have "fresnel (Vec3 1 0 0) (Vec3 0 0 1) 3 0.25 = Some 1"
    using fresnel_head_on_and_grazing [OF u(2) u(1), of 3 "0.25"] by (auto simp: dot3_def)
  ultimately show ?thesis by simp
qed

section \<open>Signs of the shading terms\<close>

lemma nonneg3_Vec3 [simp]: "nonneg3 (Vec3 a b c) \<longleftrightarrow> 0 \<le> a \<and> 0 \<le> b \<and> 0 \<le> c"
  by (simp add: nonneg3_def)

lemma nonneg3_add3: "nonneg3 a \<Longrightarrow> nonneg3 b \<Longrightarrow> nonneg3 (add3 a b)"
  by (simp add: nonneg3_def add3_def)

lemma nonneg3_scale3: "nonneg3 a \<Longrightarrow> 0 \<le> k \<Longrightarrow> nonneg3 (scale3 a k)"
  by (simp add: nonneg3_def scale3_def)

lemma nonneg3_mul3: "nonneg3 a \<Longrightarrow> nonneg3 b \<Longrightarrow> nonneg3 (mul3 a b)"
  by (simp add: nonneg3_def mul3_def)

lemma mix_nonneg: "0 \<le> x \<Longrightarrow> 0 \<le> y \<Longrightarrow> 0 \<le> t \<Longrightarrow> t \<le> 1 \<Longrightarrow> 0 \<le> mix x y t"
  by (simp add: mix_def)

lemma nonneg3_mix3:
  "nonneg3 a \<Longrightarrow> nonneg3 b \<Longrightarrow> 0 \<le> t \<Longrightarrow> t \<le> 1 \<Longrightarrow> nonneg3 (mix3 a b t)"
  by (simp add: nonneg3_def mix3_def mix_nonneg)

lemma smoothstep_ge0: "0 \<le> smoothstep e0 e1 x"
  using smoothstep_range by blast

lemma smoothstep_le1: "smoothstep e0 e1 x \<le> 1"
  using smoothstep_range by blast

lemma PI_pos: "0 < PI"
  by (simp add: PI_def)

lemma D_GGX_nonneg: "0 \<le> D_GGX x r"
proof -
  have "0 \<le> PI * ((x * x) * ((r * r) * (r * r) - 1) + 1) * ((x * x) * ((r * r) * (r * r) - 1) + 1)"
    using PI_pos by (simp add: mult.assoc)
  then show ?thesis
    by (simp add: D_GGX_def Let_def)
qed

lemma F_Schlick_nonneg:
  assumes "F_Schlick x F0 = Some f" and "nonneg3 F0"
    and "vx F0 \<le> 1" and "vy F0 \<le> 1" and "vz F0 \<le> 1"
  shows "nonneg3 f"
proof -
  obtain p where p: "pow (max (1 - x) 0) 5 = Some p"
    and f: "f = add3 F0 (scale3 (map3 (\<lambda>c. 1 - c) F0) p)"
    using assms(1) by (auto simp: F_Schlick_def bind_eq_Some_conv)
  have "0 \<le> p" using p by (rule pow_nonneg)
  then show ?thesis
    using assms(2-5) by (simp add: f nonneg3_def add3_def scale3_def map3_def)
qed

lemma F_Schlick_defined: "\<exists>f. F_Schlick x F0 = Some f"
  by (simp add: F_Schlick_def pow_def)

lemma sampleEnv_nonneg: "sampleEnv R = Some e \<Longrightarrow> nonneg3 e"
  by (auto simp: sampleEnv_def bind_eq_Some_conv Let_def
      intro!: nonneg3_add3 nonneg3_scale3 mult_nonneg_nonneg smoothstep_ge0)

lemma environmentGradient_nonneg: "nonneg3 (environmentGradient R)"
  unfolding environmentGradient_def Let_def
  by (intro nonneg3_add3 nonneg3_scale3 nonneg3_mix3 mult_nonneg_nonneg
      smoothstep_ge0 smoothstep_le1) simp_all

lemma unit_component_y: "dot3 n n = 1 \<Longrightarrow> \<bar>vy n\<bar> \<le> 1"
proof -
  assume "dot3 n n = 1"
  then have "vy n * vy n \<le> 1 * 1"
    using zero_le_square [of "vx n"] zero_le_square [of "vz n"] unfolding dot3_def by linarith
  then show ?thesis
    using abs_le_square_iff [of "vy n" 1] by (simp add: power2_eq_square)
qed

lemma edgeColor_nonneg: "dot3 n n = 1 \<Longrightarrow> nonneg3 (edgeColor n)"
proof -
  assume "dot3 n n = 1"
  then have "\<bar>vy n\<bar> \<le> 1" by (rule unit_component_y)
  then have "0 \<le> dot3 n (Vec3 0 1 0) * 0.5 + 0.5" "dot3 n (Vec3 0 1 0) * 0.5 + 0.5 \<le> 1"
    by (simp_all add: dot3_def abs_le_iff)
  then show ?thesis
    unfolding edgeColor_def Let_def
    by (intro nonneg3_mix3) (simp_all add: add3_def scale3_def)
qed

lemma fresnel_range: "fresnel w n p b = Some f \<Longrightarrow> 0 \<le> f \<and> f \<le> 1"
  using clamp_bounds [of 0 1] by (auto simp: fresnel_def bind_eq_Some_conv Let_def)

lemma absorbedColor_nonneg: "u_absorption u \<le> 2 \<Longrightarrow> nonneg3 (absorbedColor u v)"
proof -
  assume a: "u_absorption u \<le> 2"
  define depth where "depth = clamp (1 - \<bar>v_displacement v\<bar> * 2) 0 1"
  have d: "0 \<le> depth" "depth \<le> 1" using clamp_bounds [of 0 1] by (simp_all add: depth_def)
  have "depth * u_absorption u \<le> depth * 2" using a d by (intro mult_left_mono) auto
  then have k: "0 \<le> 1 - depth * u_absorption u * 0.5" using d by linarith
  have "nonneg3 (scale3 (Vec3 0.015 0.018 0.025) (1 - depth * u_absorption u * 0.5))"
    by (rule nonneg3_scale3 [OF _ k]) simp
  then show ?thesis
    by (simp only: absorbedColor_def Let_def depth_def)
qed

lemma keyContribution_nonneg:
  assumes "keyContribution u v n w = Some k" and "nonneg3 (u_keyLightColor u)"
    and "0 \<le> u_keyLightIntensity u"
  shows "nonneg3 k"
  using assms
  by (auto simp: keyContribution_def bind_eq_Some_conv Let_def
      intro!: nonneg3_scale3 add_nonneg_nonneg mult_nonneg_nonneg dest: pow_nonneg)

lemma rimContribution_nonneg:
  assumes "rimContribution u v n w = Some k" and "nonneg3 (u_rimLightColor u)"
    and "0 \<le> u_rimLightIntensity u"
  shows "nonneg3 k"
  using assms
  by (auto simp: rimContribution_def bind_eq_Some_conv Let_def
      intro!: nonneg3_scale3 dest: pow_nonneg)

lemma composite_glsl_nonneg:
  assumes c: "composite_glsl u v = Some c"
    and "u_absorption u \<le> 2"
    and "nonneg3 (u_keyLightColor u)" and "0 \<le> u_keyLightIntensity u"
    and "nonneg3 (u_rimLightColor u)" and "0 \<le> u_rimLightIntensity u"
    and "- 20 \<le> v_displacement v"
  shows "nonneg3 c"
proof -
  obtain n w f k r where n: "normalize3 (v_normal v) = Some n"
    and f: "fresnel w n (u_fresnelPower u) (u_fresnelBias u) = Some f"
    and k: "keyContribution u v n w = Some k"
    and r: "rimContribution u v n w = Some r"
    and c': "c = scale3 (add3 (add3 (add3 (add3 (absorbedColor u v)
                (scale3 (scale3 (environmentGradient (reflect (neg3 w) n)) f) 0.6))
                (scale3 (scale3 (scale3 (edgeColor n) f) f) 0.4)) k) r)
              (0.95 + (v_displacement v * 0.5 + 0.5) * 0.1)"
    using c by (auto simp: composite_glsl_def bind_eq_Some_conv Let_def)
  have f0: "0 \<le> f" using fresnel_range [OF f] by simp
  have "0 \<le> 0.95 + (v_displacement v * 0.5 + 0.5) * 0.1"
    using assms(7) by (simp add: field_simps)
  then show ?thesis
    unfolding c'
    by (intro nonneg3_scale3 nonneg3_add3 absorbedColor_nonneg environmentGradient_nonneg
        edgeColor_nonneg normalize3_unit [OF n] keyContribution_nonneg [OF k]
        rimContribution_nonneg [OF r] assms f0) simp_all
qed

lemmas lobe_intros = nonneg3_add3 nonneg3_scale3 nonneg3_mul3 mult_nonneg_nonneg
  smoothstep_ge0 D_GGX_nonneg

lemma one_minus_smoothstep: "0 \<le> 1 - smoothstep e0 e1 x"
  using smoothstep_le1 [of e0 e1 x] by simp

lemma internalColor_js_nonneg:
  assumes "internalColor_js NdotV yPos = Some c" and "NdotV \<le> 1"
  shows "nonneg3 c"
proof -
  obtain depthFade where p: "pow NdotV 0.8 = Some depthFade"
    and c: "c = mix3 (Vec3 0.01 0.02 0.05)
               (mix3 (Vec3 0.25 0.16 0.05) (Vec3 0.02 0.06 0.18) (smoothstep 0.6 (- 0.5) yPos))
               (0.5 + depthFade * 0.5)"
    using assms(1) by (auto simp: internalColor_js_def bind_eq_Some_conv Let_def)
  have "0 \<le> depthFade" "depthFade \<le> 1"
    using pow_nonneg [OF p] pow_le_one [OF p assms(2)] by simp_all
  then have "0 \<le> 0.5 + depthFade * 0.5" "0.5 + depthFade * 0.5 \<le> 1" by simp_all
  then show ?thesis
    unfolding c by (intro nonneg3_mix3 smoothstep_ge0 smoothstep_le1) simp_all
qed

lemma envReflection_js_nonneg: "envReflection_js e R = Some c \<Longrightarrow> nonneg3 c"
  by (auto simp: envReflection_js_def bind_eq_Some_conv
      intro!: lobe_intros dest: pow_nonneg sampleEnv_nonneg)

lemma rimColor_js_nonneg: "rimColor_js e y = Some c \<Longrightarrow> nonneg3 c"
  by (auto simp: rimColor_js_def bind_eq_Some_conv Let_def intro!: lobe_intros dest: pow_nonneg)

lemma leftGlow_js_nonneg: "leftGlow_js e x y = Some c \<Longrightarrow> nonneg3 c"
  by (auto simp: leftGlow_js_def bind_eq_Some_conv Let_def intro!: lobe_intros dest: pow_nonneg)

lemma leftWarm_js_nonneg: "leftWarm_js e x y = Some c \<Longrightarrow> nonneg3 c"
  by (auto simp: leftWarm_js_def bind_eq_Some_conv Let_def intro!: lobe_intros dest: pow_nonneg)

lemma rightGlow_js_nonneg: "rightGlow_js e x y = Some c \<Longrightarrow> nonneg3 c"
  by (auto simp: rightGlow_js_def bind_eq_Some_conv Let_def
      intro!: lobe_intros one_minus_smoothstep dest: pow_nonneg)

lemma F_Schlick_nonneg_js: "F_Schlick x (Vec3 1 0.92 0.75) = Some f \<Longrightarrow> nonneg3 f"
  by (erule F_Schlick_nonneg) simp_all

lemma spec1_js_nonneg:
  assumes "spec1_js N V = Some c"
  shows "nonneg3 c"
proof -
  obtain L1 H1 F1 where F: "F_Schlick (max (dot3 V H1) 0) (Vec3 1 0.92 0.75) = Some F1"
    and c: "c = scale3 (mul3 (scale3 (scale3 F1 (D_GGX (max (dot3 N H1) 0) 0.025))
                                (max (dot3 N L1) 0)) (Vec3 1 0.95 0.85)) 1.2"
    using assms by (auto simp: spec1_js_def bind_eq_Some_conv Let_def)
  show ?thesis
    unfolding c by (intro lobe_intros F_Schlick_nonneg_js [OF F]) simp_all
qed

lemma spec2_js_nonneg: "spec2_js N V = Some c \<Longrightarrow> nonneg3 c"
  by (auto simp: spec2_js_def bind_eq_Some_conv Let_def intro!: lobe_intros)

lemma edgeHighlight_js_nonneg: "edgeHighlight_js e = Some c \<Longrightarrow> nonneg3 c"
  by (auto simp: edgeHighlight_js_def bind_eq_Some_conv intro!: lobe_intros dest: pow_nonneg)

lemma composite_js_nonneg:
  assumes "composite_js u v = Some c"
  shows "nonneg3 c"
proof -
  obtain N V ic er rc lg lw rg s1 s2 eh where N: "normalize3 (v_smoothNormal v) = Some N"
    and V: "normalize3 (sub3 (u_cameraPosition u) (v_worldPosition v)) = Some V"
    and ic: "internalColor_js (max (dot3 N V) 0) (vy (v_localPosition v)) = Some ic"
    and er: "envReflection_js (1 - max (dot3 N V) 0) (reflect (neg3 V) N) = Some er"
    and rc: "rimColor_js (1 - max (dot3 N V) 0) (vy (v_localPosition v)) = Some rc"
    and lg: "leftGlow_js (1 - max (dot3 N V) 0) (vx (v_localPosition v))
               (vy (v_localPosition v)) = Some lg"
    and lw: "leftWarm_js (1 - max (dot3 N V) 0) (vx (v_localPosition v))
               (vy (v_localPosition v)) = Some lw"
    and rg: "rightGlow_js (1 - max (dot3 N V) 0) (vx (v_localPosition v))
               (vy (v_localPosition v)) = Some rg"
    and s1: "spec1_js N V = Some s1" and s2: "spec2_js N V = Some s2"
    and eh: "edgeHighlight_js (1 - max (dot3 N V) 0) = Some eh"
    and c: "c = add3 (add3 (add3 (add3 (add3 (add3 (add3 (add3 (scale3 ic 0.35) er) rc) lg) lw)
                  rg) s1) s2) eh"
    using assms by (auto simp: composite_js_def bind_eq_Some_conv Let_def)
  have "max (dot3 N V) 0 \<le> 1"
    using dot3_unit_le [OF normalize3_unit [OF N] normalize3_unit [OF V]] by simp
  then have "nonneg3 ic" by (rule internalColor_js_nonneg [OF ic])
  then show ?thesis
    unfolding c
    by (intro nonneg3_add3 nonneg3_scale3 envReflection_js_nonneg [OF er]
        rimColor_js_nonneg [OF rc] leftGlow_js_nonneg [OF lg] leftWarm_js_nonneg [OF lw]
        rightGlow_js_nonneg [OF rg] spec1_js_nonneg [OF s1] spec2_js_nonneg [OF s2]
        edgeHighlight_js_nonneg [OF eh]) simp_all
qed

lemma glassCore_p0_nonneg: "glassCore_p0 NdotV yPos = Some c \<Longrightarrow> nonneg3 c"
  by (auto simp: glassCore_p0_def bind_eq_Some_conv Let_def
      intro!: nonneg3_scale3 nonneg3_mix3 smoothstep_ge0 smoothstep_le1 add_nonneg_nonneg
      dest: pow_nonneg)

lemma reflection_p0_nonneg: "reflection_p0 e R = Some c \<Longrightarrow> nonneg3 c"
  by (auto simp: reflection_p0_def bind_eq_Some_conv
      intro!: lobe_intros dest: pow_nonneg sampleEnv_nonneg)

lemma rimLight_p0_nonneg: "rimLight_p0 e y = Some c \<Longrightarrow> nonneg3 c"
  by (auto simp: rimLight_p0_def bind_eq_Some_conv Let_def intro!: lobe_intros dest: pow_nonneg)

lemma leftLight_p0_nonneg: "leftLight_p0 e x y = Some c \<Longrightarrow> nonneg3 c"
  by (auto simp: leftLight_p0_def bind_eq_Some_conv Let_def intro!: lobe_intros dest: pow_nonneg)

lemma rightLight_p0_nonneg: "rightLight_p0 e x y = Some c \<Longrightarrow> nonneg3 c"
  by (auto simp: rightLight_p0_def bind_eq_Some_conv Let_def
      intro!: lobe_intros one_minus_smoothstep dest: pow_nonneg)

lemma F_Schlick_nonneg_p0: "F_Schlick x (Vec3 0.95 0.88 0.7) = Some f \<Longrightarrow> nonneg3 f"
  by (erule F_Schlick_nonneg) simp_all

lemma spec_p0_nonneg:
  assumes "spec_p0 N V = Some c"
  shows "nonneg3 c"
proof -
  obtain L H F where F: "F_Schlick (max (dot3 V H) 0) (Vec3 0.95 0.88 0.7) = Some F"
    and c: "c = scale3 (mul3 (scale3 (scale3 F (D_GGX (max (dot3 N H) 0) 0.018))
                                (max (dot3 N L) 0)) (Vec3 1 0.96 0.88)) 0.9"
    using assms by (auto simp: spec_p0_def bind_eq_Some_conv Let_def)
  show ?thesis
    unfolding c by (intro lobe_intros F_Schlick_nonneg_p0 [OF F]) simp_all
qed

lemma edgeColor_p0_nonneg: "edgeColor_p0 e = Some c \<Longrightarrow> nonneg3 c"
  by (auto simp: edgeColor_p0_def bind_eq_Some_conv intro!: lobe_intros dest: pow_nonneg)

lemma composite_p0_nonneg:
  assumes "composite_p0 u v = Some c"
  shows "nonneg3 c"
proof -
  obtain N V gc re rl ll rr sp ec where
        gc: "glassCore_p0 (max (dot3 N V) 0) (vy (v_localPosition v)) = Some gc"
    and re: "reflection_p0 (1 - max (dot3 N V) 0) (reflect (neg3 V) N) = Some re"
    and rl: "rimLight_p0 (1 - max (dot3 N V) 0) (vy (v_localPosition v)) = Some rl"
    and ll: "leftLight_p0 (1 - max (dot3 N V) 0) (vx (v_localPosition v))
               (vy (v_localPosition v)) = Some ll"
    and rr: "rightLight_p0 (1 - max (dot3 N V) 0) (vx (v_localPosition v))
               (vy (v_localPosition v)) = Some rr"
    and sp: "spec_p0 N V = Some sp"
    and ec: "edgeColor_p0 (1 - max (dot3 N V) 0) = Some ec"
    and c: "c = add3 (add3 (add3 (add3 (add3 (add3 (scale3 gc 0.25) re) rl) ll) rr) sp) ec"
    using assms by (auto simp: composite_p0_def bind_eq_Some_conv Let_def)
  show ?thesis
    unfolding c
    by (intro nonneg3_add3 nonneg3_scale3 glassCore_p0_nonneg [OF gc]
        reflection_p0_nonneg [OF re] rimLight_p0_nonneg [OF rl] leftLight_p0_nonneg [OF ll]
        rightLight_p0_nonneg [OF rr] spec_p0_nonneg [OF sp] edgeColor_p0_nonneg [OF ec])
      simp_all
qed

section \<open>Tone mapping\<close>

lemma unit_range3_Vec3 [simp]:
  "unit_range3 (Vec3 a b c) \<longleftrightarrow> 0 \<le> a \<and> a \<le> 1 \<and> 0 \<le> b \<and> b \<le> 1 \<and> 0 \<le> c \<and> c \<le> 1"
  by (simp add: unit_range3_def)

lemma reinhard_pow:
  assumes "0 \<le> x" and "0 < k" and "0 < e"
  shows "divide_g x (x + k) \<bind> (\<lambda>r. pow r e) = Some ((x / (x + k)) powr e)
       \<and> 0 \<le> (x / (x + k)) powr e \<and> (x / (x + k)) powr e \<le> 1"
proof -
  have r: "0 \<le> x / (x + k)" "x / (x + k) \<le> 1" using assms by (simp_all add: field_simps)
  have "\<bar>x / (x + k)\<bar> \<le> 1" unfolding abs_of_nonneg [OF r(1)] by (rule r(2))
  then have "(x / (x + k)) powr e \<le> 1" using assms(3) by (intro powr_le1) simp_all
  moreover have "\<not> (x / (x + k) < 0 \<or> x / (x + k) = 0 \<and> e \<le> 0)"
    using r(1) assms(3) by linarith
  then have "pow (x / (x + k)) e = Some ((x / (x + k)) powr e)"
    unfolding pow_def by (rule if_not_P)
  moreover have "divide_g x (x + k) = Some (x / (x + k))"
    using assms(1,2) by (simp add: divide_g_def)
  ultimately show ?thesis by simp
qed

lemma tonemap_glsl_range:
  assumes "nonneg3 c"
  shows "\<exists>t. tonemap_glsl c = Some t \<and> unit_range3 t"
proof -
  have "0 \<le> vx c" "0 \<le> vy c" "0 \<le> vz c" using assms by (simp_all add: nonneg3_def)
  then have "divide_g (vx c) (vx c + 1) \<bind> (\<lambda>r. pow r 1.05) = Some ((vx c / (vx c + 1)) powr 1.05)
       \<and> 0 \<le> (vx c / (vx c + 1)) powr 1.05 \<and> (vx c / (vx c + 1)) powr 1.05 \<le> 1"
    "divide_g (vy c) (vy c + 1) \<bind> (\<lambda>r. pow r 1.05) = Some ((vy c / (vy c + 1)) powr 1.05)
       \<and> 0 \<le> (vy c / (vy c + 1)) powr 1.05 \<and> (vy c / (vy c + 1)) powr 1.05 \<le> 1"
    "divide_g (vz c) (vz c + 1) \<bind> (\<lambda>r. pow r 1.05) = Some ((vz c / (vz c + 1)) powr 1.05)
       \<and> 0 \<le> (vz c / (vz c + 1)) powr 1.05 \<and> (vz c / (vz c + 1)) powr 1.05 \<le> 1"
    by (intro reinhard_pow; simp)+
  then show ?thesis
    by (auto simp: tonemap_glsl_def bind_eq_Some_conv)
qed

lemma tonemap_p0_range:
  assumes "nonneg3 c"
  shows "\<exists>t. tonemap_p0 c = Some t \<and> unit_range3 t"
proof -
  have "0 \<le> vx c" "0 \<le> vy c" "0 \<le> vz c" using assms by (simp_all add: nonneg3_def)
  then have "divide_g (vx c) (vx c + 0.5) \<bind> (\<lambda>r. pow r 0.92) = Some ((vx c / (vx c + 0.5)) powr 0.92)
       \<and> 0 \<le> (vx c / (vx c + 0.5)) powr 0.92 \<and> (vx c / (vx c + 0.5)) powr 0.92 \<le> 1"
    "divide_g (vy c) (vy c + 0.5) \<bind> (\<lambda>r. pow r 0.95) = Some ((vy c / (vy c + 0.5)) powr 0.95)
       \<and> 0 \<le> (vy c / (vy c + 0.5)) powr 0.95 \<and> (vy c / (vy c + 0.5)) powr 0.95 \<le> 1"
    "divide_g (vz c) (vz c + 0.5) \<bind> (\<lambda>r. pow r 1) = Some ((vz c / (vz c + 0.5)) powr 1)
       \<and> 0 \<le> (vz c / (vz c + 0.5)) powr 1 \<and> (vz c / (vz c + 0.5)) powr 1 \<le> 1"
    by (intro reinhard_pow; simp)+
  then show ?thesis
    by (auto simp: tonemap_p0_def bind_eq_Some_conv)
qed

lemma filmic_denominator: "0 < x * (2.2 * x + 0.58) + (0.13::real)"
proof -
  have "x * (2.2 * x + 0.58) + 0.13 = 2.2 * (x + 29 / 220)\<^sup>2 + 2019 / 22000"
    by (simp add: power2_eq_square algebra_simps)
  moreover have "0 \<le> 2.2 * (x + 29 / 220)\<^sup>2" by simp
  ultimately show ?thesis by linarith
qed

lemma filmic_js_range: "\<exists>q. filmic_js x = Some q \<and> 0 \<le> q \<and> q \<le> 1"
  using filmic_denominator [of x] clamp_bounds [of 0 1]
  by (simp add: filmic_js_def divide_g_def Let_def)

lemma pow_unit:
  assumes "0 \<le> q" and "q \<le> 1" and "0 < e"
  shows "pow q e = Some (q powr e) \<and> 0 \<le> q powr e \<and> q powr e \<le> 1"
  using assms by (simp add: pow_def powr_le1)

lemma tonemap_js_range: "\<exists>t. tonemap_js c = Some t \<and> unit_range3 t"
proof -
  obtain r g b where r: "filmic_js (vx c) = Some r" "0 \<le> r" "r \<le> 1"
    and g: "filmic_js (vy c) = Some g" "0 \<le> g" "g \<le> 1"
    and b: "filmic_js (vz c) = Some b" "0 \<le> b" "b \<le> 1"
    using filmic_js_range by metis
  have "pow r 0.9 = Some (r powr 0.9) \<and> 0 \<le> r powr 0.9 \<and> r powr 0.9 \<le> 1"
    "pow g 0.95 = Some (g powr 0.95) \<and> 0 \<le> g powr 0.95 \<and> g powr 0.95 \<le> 1"
    "pow b 1 = Some (b powr 1) \<and> 0 \<le> b powr 1 \<and> b powr 1 \<le> 1"
    using r g b by (intro pow_unit; simp)+
  then show ?thesis
    using r g b by (auto simp: tonemap_js_def bind_eq_Some_conv)
qed

section \<open>The shaders at sample fragments\<close>

lemma normalize3_axis_z: "0 < k \<Longrightarrow> normalize3 (Vec3 0 0 k) = Some (Vec3 0 0 1)"
  by (simp add: normalize3_def length3_def dot3_def scale3_def real_sqrt_mult)

lemma normalize3_axis_y: "0 < k \<Longrightarrow> normalize3 (Vec3 0 k 0) = Some (Vec3 0 1 0)"
  by (simp add: normalize3_def length3_def dot3_def scale3_def real_sqrt_mult)

lemma normalize3_3_0_4: "normalize3 (Vec3 3 0 4) = Some (Vec3 0.6 0 0.8)"
  by (simp add: normalize3_def length3_def dot3_def scale3_def)

lemma composite_js_sample: "\<exists>c. composite_js sample_lights sample_fragment = Some c"
  apply (simp add: composite_js_def sub3_def normalize3_axis_z normalize3_3_0_4 Let_def)
  apply (simp add: internalColor_js_def envReflection_js_def rimColor_js_def leftGlow_js_def
      leftWarm_js_def rightGlow_js_def edgeHighlight_js_def dot3_def pow_def Let_def)
  apply (simp add: sampleEnv_def reflect_def neg3_def sub3_def scale3_def dot3_def atan_g_def
      Let_def)
  apply (simp add: spec1_js_def spec2_js_def F_Schlick_def pow_def Let_def normalize3_def
      length3_zero_iff add3_def scale3_def)
  done

lemma composite_p0_sample: "\<exists>c. composite_p0 sample_lights sample_fragment = Some c"
  apply (simp add: composite_p0_def sub3_def normalize3_axis_z normalize3_3_0_4 Let_def)
  apply (simp add: glassCore_p0_def reflection_p0_def rimLight_p0_def leftLight_p0_def
      rightLight_p0_def edgeColor_p0_def dot3_def pow_def Let_def)
  apply (simp add: sampleEnv_def reflect_def neg3_def sub3_def scale3_def dot3_def atan_g_def
      Let_def)
  apply (simp add: spec_p0_def F_Schlick_def pow_def Let_def normalize3_def
      length3_zero_iff add3_def scale3_def)
  done

lemma composite_glsl_sample: "\<exists>c. composite_glsl sample_lights sample_fragment = Some c"
  apply (simp add: composite_glsl_def sub3_def normalize3_axis_z normalize3_3_0_4 Let_def)
  apply (simp add: fresnel_def keyContribution_def rimContribution_def specular_def
      sub3_def add3_def dot3_def pow_def Let_def normalize3_axis_z normalize3_axis_y)
  apply (simp add: normalize3_def length3_zero_iff bind_eq_Some_conv)
  done

lemma composite_glsl_head_on:
  "composite_glsl (head_on_unlit b a) facing_fragment
   = Some (add3 (add3 (scale3 (Vec3 0.015 0.018 0.025) (1 - a * 0.5))
                      (scale3 (Vec3 0.04 0.045 0.06) (clamp b 0 1 * 0.6)))
                (scale3 (Vec3 0.1505 0.158 0.186) (clamp b 0 1 * clamp b 0 1 * 0.4)))"
  apply (simp add: composite_glsl_def sub3_def normalize3_axis_z Let_def)
  apply (simp add: fresnel_def keyContribution_def rimContribution_def specular_def
      sub3_def add3_def dot3_def pow_def Let_def normalize3_axis_z normalize3_axis_y)
  apply (simp add: absorbedColor_def environmentGradient_def edgeColor_def reflect_def neg3_def
       smoothstep_def clamp_def mix3_def mix_def sub3_def add3_def scale3_def dot3_def Let_def)
  done

lemma head_on_unlit_values:
  "composite_glsl (head_on_unlit 0 4) facing_fragment = Some (Vec3 (- 0.015) (- 0.018) (- 0.025))"
  "composite_glsl (head_on_unlit 0 162) facing_fragment = Some (Vec3 (- 1.2) (- 1.44) (- 2))"
  "composite_glsl (head_on_unlit 0.5 0.8) facing_fragment = Some (Vec3 0.03605 0.0401 0.0516)"
  by (rule trans [OF composite_glsl_head_on], simp add: clamp_def add3_def scale3_def)+

lemma main_fragment_js_range:
  assumes "main_fragment_js u v = Some c"
  shows "unit_range3 (xyz c) \<and> ww c = 1"
proof -
  obtain a t where t: "tonemap_js a = Some t" and c: "c = vec4_of t 1"
    using assms by (auto simp: main_fragment_js_def bind_eq_Some_conv)
  have "unit_range3 t" using tonemap_js_range [of a] t by auto
  then show ?thesis by (simp add: c vec4_of_def xyz_def unit_range3_def)
qed

lemma main_fragment_p0_range:
  assumes "main_fragment_p0 u v = Some c"
  shows "unit_range3 (xyz c) \<and> ww c = 1"
proof -
  obtain a t where a: "composite_p0 u v = Some a" and t: "tonemap_p0 a = Some t"
    and c: "c = vec4_of t 1"
    using assms by (auto simp: main_fragment_p0_def bind_eq_Some_conv)
  have "unit_range3 t"
    using tonemap_p0_range [OF composite_p0_nonneg [OF a]] t by auto
  then show ?thesis by (simp add: c vec4_of_def xyz_def unit_range3_def)
qed

lemma main_fragment_glsl_range:
  assumes "main_fragment_glsl u v = Some c"
    and "u_absorption u \<le> 2"
    and "nonneg3 (u_keyLightColor u)" and "0 \<le> u_keyLightIntensity u"
    and "nonneg3 (u_rimLightColor u)" and "0 \<le> u_rimLightIntensity u"
    and "- 20 \<le> v_displacement v"
  shows "unit_range3 (xyz c) \<and> ww c = 1"
proof -
  obtain a t where a: "composite_glsl u v = Some a" and t: "tonemap_glsl a = Some t"
    and c: "c = vec4_of t 1"
    using assms(1) by (auto simp: main_fragment_glsl_def bind_eq_Some_conv)
  have "unit_range3 t"
    using tonemap_glsl_range [OF composite_glsl_nonneg [OF a assms(2-7)]] t by auto
  then show ?thesis by (simp add: c vec4_of_def xyz_def unit_range3_def)
qed

lemma main_fragment_samples:
  "\<exists>c. main_fragment_js sample_lights sample_fragment = Some c"
  "\<exists>c. main_fragment_p0 sample_lights sample_fragment = Some c"
  "\<exists>c. main_fragment_glsl sample_lights sample_fragment = Some c"
proof -
  obtain a where a: "composite_js sample_lights sample_fragment = Some a"
    using composite_js_sample by blast
  then show "\<exists>c. main_fragment_js sample_lights sample_fragment = Some c"
    using tonemap_js_range [of a] by (auto simp: main_fragment_js_def)
  obtain b where b: "composite_p0 sample_lights sample_fragment = Some b"
    using composite_p0_sample by blast
  then show "\<exists>c. main_fragment_p0 sample_lights sample_fragment = Some c"
    using tonemap_p0_range [OF composite_p0_nonneg [OF b]] by (auto simp: main_fragment_p0_def)
  obtain c where c: "composite_glsl sample_lights sample_fragment = Some c"
    using composite_glsl_sample by blast
  have "nonneg3 c" by (rule composite_glsl_nonneg [OF c]) simp_all
  then show "\<exists>c. main_fragment_glsl sample_lights sample_fragment = Some c"
    using tonemap_glsl_range [of c] c by (auto simp: main_fragment_glsl_def)
qed

section \<open>The colour before and after tone mapping\<close>

text \<open>
  Claim C4, as stated, fails on the liquid-metal shader: a fragment seen head-on, unlit,
  with \<open>u_absorption = 4\<close> reaches the tone-mapping step with all three channels negative
  (the absorbed core colour is the core colour times \<open>1 - depth * u_absorption * 0.5\<close>).
\<close>

theorem accumulated_colour_negative:
  "composite_glsl (head_on_unlit 0 4) facing_fragment = Some (Vec3 (- 0.015) (- 0.018) (- 0.025))"
  by (rule head_on_unlit_values(1))

text \<open>
  Claim C4, amended. Wherever the colour is defined, every channel that reaches the
  tone-mapping step is at least 0: in the two shaders embedded in the scripts for every
  fragment, and in the liquid-metal shader when \<open>u_absorption \<le> 2\<close>, the light colours and
  intensities are at least 0 and \<open>v_displacement \<ge> -20\<close>.
\<close>

theorem accumulated_colour_nonneg:
  "(composite_js u v = Some c \<longrightarrow> nonneg3 c)
   \<and> (composite_p0 u v = Some c \<longrightarrow> nonneg3 c)
   \<and> (u_absorption u \<le> 2 \<and> nonneg3 (u_keyLightColor u) \<and> 0 \<le> u_keyLightIntensity u
      \<and> nonneg3 (u_rimLightColor u) \<and> 0 \<le> u_rimLightIntensity u
      \<and> - 20 \<le> v_displacement v \<and> composite_glsl u v = Some c \<longrightarrow> nonneg3 c)"
  using composite_js_nonneg composite_p0_nonneg composite_glsl_nonneg by blast

theorem accumulated_colour_nonneg_witness:
  "\<exists>a b c. composite_js sample_lights sample_fragment = Some a \<and> nonneg3 a
     \<and> composite_p0 sample_lights sample_fragment = Some b \<and> nonneg3 b
     \<and> composite_glsl sample_lights sample_fragment = Some c \<and> nonneg3 c"
proof -
  obtain a b c where a: "composite_js sample_lights sample_fragment = Some a"
    and b: "composite_p0 sample_lights sample_fragment = Some b"
    and c: "composite_glsl sample_lights sample_fragment = Some c"
    using composite_js_sample composite_p0_sample composite_glsl_sample by blast
  have "nonneg3 a"
    using accumulated_colour_nonneg [of sample_lights sample_fragment a] a by blast
  moreover have "nonneg3 b"
    using accumulated_colour_nonneg [of sample_lights sample_fragment b] b by blast
  moreover have "nonneg3 c"
    using accumulated_colour_nonneg [of sample_lights sample_fragment c] c by simp
  ultimately show ?thesis using a b c by blast
qed

text \<open>
  Claim C5, as stated, fails on the liquid-metal shader. With \<open>u_absorption = 162\<close> the
  head-on unlit fragment reaches Reinhard's \<open>c / (c + 1)\<close> with channels below -1 and leaves
  with every channel above 1; with \<open>u_absorption = 4\<close> the quotient is negative and the
  contrast exponent is undefined.
\<close>

theorem tone_mapped_out_of_range:
  "main_fragment_glsl (head_on_unlit 0 162) facing_fragment
     = Some (Vec4 (6 powr 1.05) ((36 / 11) powr 1.05) (2 powr 1.05) 1)
   \<and> 1 < (6::real) powr 1.05 \<and> 1 < (36 / 11 :: real) powr 1.05 \<and> 1 < (2::real) powr 1.05
   \<and> main_fragment_glsl (head_on_unlit 0 4) facing_fragment = None"
proof -
  have t: "tonemap_glsl (Vec3 (- 1.2) (- 1.44) (- 2))
           = Some (Vec3 (6 powr 1.05) ((36 / 11) powr 1.05) (2 powr 1.05))"
    by (simp add: tonemap_glsl_def divide_g_def pow_def)
  have n: "tonemap_glsl (Vec3 (- 0.015) (- 0.018) (- 0.025)) = None"
    by (simp add: tonemap_glsl_def divide_g_def pow_def)
  have "main_fragment_glsl (head_on_unlit 0 162) facing_fragment
     = Some (Vec4 (6 powr 1.05) ((36 / 11) powr 1.05) (2 powr 1.05) 1)"
    by (simp only: main_fragment_glsl_def head_on_unlit_values(2) t Option.bind.simps
        vec4_of_def vec3.sel)
  moreover have "main_fragment_glsl (head_on_unlit 0 4) facing_fragment = None"
    by (simp only: main_fragment_glsl_def head_on_unlit_values(1) n Option.bind.simps)
  moreover have "1 < (6::real) powr 1.05" "1 < (36 / 11 :: real) powr 1.05"
    "1 < (2::real) powr 1.05"
    by simp_all
  ultimately show ?thesis by blast
qed

text \<open>
  Claim C5, amended. After tone mapping every channel of a defined output colour lies in
  [0, 1] and alpha is 1: in the two shaders embedded in the scripts for every fragment
  (the clamped filmic curve of main.js, \<open>c / (c + 0.5)\<close> in the second copy, each followed
  by the per-channel exponent), and in the liquid-metal shader (Reinhard, then the exponent
  1.05) under the conditions of C4 that keep the accumulated colour at least 0.
\<close>

theorem tone_mapped_unit_range:
  "(main_fragment_js u v = Some c \<longrightarrow> unit_range3 (xyz c) \<and> ww c = 1)
   \<and> (main_fragment_p0 u v = Some c \<longrightarrow> unit_range3 (xyz c) \<and> ww c = 1)
   \<and> (u_absorption u \<le> 2 \<and> nonneg3 (u_keyLightColor u) \<and> 0 \<le> u_keyLightIntensity u
      \<and> nonneg3 (u_rimLightColor u) \<and> 0 \<le> u_rimLightIntensity u
      \<and> - 20 \<le> v_displacement v \<and> main_fragment_glsl u v = Some c
      \<longrightarrow> unit_range3 (xyz c) \<and> ww c = 1)"
  using main_fragment_js_range main_fragment_p0_range main_fragment_glsl_range by blast

theorem tone_mapped_unit_range_witness:
  "\<exists>a b c. main_fragment_js sample_lights sample_fragment = Some a \<and> unit_range3 (xyz a)
     \<and> main_fragment_p0 sample_lights sample_fragment = Some b \<and> unit_range3 (xyz b)
     \<and> main_fragment_glsl sample_lights sample_fragment = Some c \<and> unit_range3 (xyz c)"
proof -
  obtain a b c where a: "main_fragment_js sample_lights sample_fragment = Some a"
    and b: "main_fragment_p0 sample_lights sample_fragment = Some b"
    and c: "main_fragment_glsl sample_lights sample_fragment = Some c"
    using main_fragment_samples by blast
  have "unit_range3 (xyz a)"
    using tone_mapped_unit_range [of sample_lights sample_fragment a] a by blast
  moreover have "unit_range3 (xyz b)"
    using tone_mapped_unit_range [of sample_lights sample_fragment b] b by blast
  moreover have "unit_range3 (xyz c)"
    using tone_mapped_unit_range [of sample_lights sample_fragment c] c by simp
  ultimately show ?thesis using a b c by blast
qed

section \<open>Zero-length vectors\<close>

lemma sub3_self: "sub3 a a = Vec3 0 0 0"
  by (simp add: sub3_def)

lemma normalize3_zero: "normalize3 (Vec3 0 0 0) = None"
  by (simp add: normalize3_None_iff)

lemma normalize3_nonzero:
  assumes "a \<noteq> Vec3 0 0 0"
  shows "\<exists>n. normalize3 a = Some n \<and> dot3 n n = 1 \<and> n = scale3 a (1 / length3 a)
             \<and> 0 < length3 a"
proof -
  have nz: "length3 a \<noteq> 0" using assms by (simp add: length3_zero_iff)
  then have "normalize3 a = Some (scale3 a (1 / length3 a))" by (simp add: normalize3_def)
  moreover from this have "dot3 (scale3 a (1 / length3 a)) (scale3 a (1 / length3 a)) = 1"
    by (rule normalize3_unit)
  moreover have "0 < length3 a" using nz length3_nonneg [of a] by linarith
  ultimately show ?thesis by blast
qed

lemma fragment_needs_view:
  assumes "u_cameraPosition u = v_worldPosition v"
  shows "main_fragment_glsl u v = None" and "main_fragment_js u v = None"
    and "main_fragment_p0 u v = None"
  using assms
  by (simp_all add: main_fragment_glsl_def composite_glsl_def main_fragment_js_def
      composite_js_def main_fragment_p0_def composite_p0_def sub3_self normalize3_zero
      bind_eq_None_conv)

lemma fragment_needs_normal:
  "v_normal v = Vec3 0 0 0 \<Longrightarrow> main_fragment_glsl u v = None"
  "v_smoothNormal v = Vec3 0 0 0 \<Longrightarrow> main_fragment_js u v = None"
  "v_smoothNormal v = Vec3 0 0 0 \<Longrightarrow> main_fragment_p0 u v = None"
  by (simp_all add: main_fragment_glsl_def composite_glsl_def main_fragment_js_def
      composite_js_def main_fragment_p0_def composite_p0_def normalize3_zero)

lemma fragment_needs_lights:
  assumes "u_keyLightPos u = v_worldPosition v \<or> u_rimLightPos u = v_worldPosition v"
  shows "main_fragment_glsl u v = None"
proof (cases "composite_glsl u v")
  case None
  then show ?thesis by (simp add: main_fragment_glsl_def)
next
  case (Some c)
  then obtain n w k r where "keyContribution u v n w = Some k"
    and "rimContribution u v n w = Some r"
    by (auto simp: composite_glsl_def bind_eq_Some_conv Let_def)
  then have "normalize3 (sub3 (u_keyLightPos u) (v_worldPosition v)) \<noteq> None"
    and "normalize3 (sub3 (u_rimLightPos u) (v_worldPosition v)) \<noteq> None"
    by (auto simp: keyContribution_def rimContribution_def bind_eq_Some_conv)
  then show ?thesis using assms by (auto simp: sub3_self normalize3_zero)
qed

text \<open>
  Claim C9, as stated, fails: the shaders call the built-in \<open>normalize\<close> and nothing else.
  The zero vector has no normalisation, and a fragment whose world position is the camera
  position has no defined colour in any of the three fragment shaders.
\<close>

theorem normalize_zero_undefined:
  "normalize3 (Vec3 0 0 0) = None
   \<and> main_fragment_glsl sample_lights (sample_fragment\<lparr>v_worldPosition := Vec3 3 0 4\<rparr>) = None
   \<and> main_fragment_js sample_lights (sample_fragment\<lparr>v_worldPosition := Vec3 3 0 4\<rparr>) = None
   \<and> main_fragment_p0 sample_lights (sample_fragment\<lparr>v_worldPosition := Vec3 3 0 4\<rparr>) = None"
  by (simp add: normalize3_zero fragment_needs_view)

text \<open>
  Claim C9, amended. \<open>normalize\<close> has no fallback axis: it is undefined at the zero vector,
  and only there; at every other vector it returns the vector of length 1 in the same
  direction. The output colour is undefined when the camera position is the fragment's world
  position, when the interpolated normal is zero, and (in the liquid-metal shader) when a
  light position is the fragment's world position.
\<close>

theorem normalize_no_fallback:
  "(normalize3 a = None \<longleftrightarrow> a = Vec3 0 0 0)
   \<and> (a \<noteq> Vec3 0 0 0 \<longrightarrow>
        (\<exists>n. normalize3 a = Some n \<and> dot3 n n = 1 \<and> n = scale3 a (1 / length3 a)
             \<and> 0 < length3 a))
   \<and> (u_cameraPosition u = v_worldPosition v \<longrightarrow>
        main_fragment_glsl u v = None \<and> main_fragment_js u v = None
        \<and> main_fragment_p0 u v = None)
   \<and> (v_normal v = Vec3 0 0 0 \<longrightarrow> main_fragment_glsl u v = None)
   \<and> (v_smoothNormal v = Vec3 0 0 0 \<longrightarrow>
        main_fragment_js u v = None \<and> main_fragment_p0 u v = None)
   \<and> (u_keyLightPos u = v_worldPosition v \<or> u_rimLightPos u = v_worldPosition v \<longrightarrow>
        main_fragment_glsl u v = None)"
  using normalize3_None_iff [of a] normalize3_nonzero [of a] fragment_needs_view [of u v]
    fragment_needs_normal [of v u] fragment_needs_lights [of u v]
  by blast

theorem normalize_no_fallback_witness:
  "normalize3 (Vec3 3 0 4) = Some (scale3 (Vec3 3 0 4) (1 / length3 (Vec3 3 0 4)))
   \<and> length3 (Vec3 3 0 4) = 5
   \<and> main_fragment_js sample_lights (sample_fragment\<lparr>v_worldPosition := Vec3 3 0 4\<rparr>) = None
   \<and> main_fragment_glsl sample_lights (sample_fragment\<lparr>v_normal := Vec3 0 0 0\<rparr>) = None
   \<and> main_fragment_p0 sample_lights (sample_fragment\<lparr>v_smoothNormal := Vec3 0 0 0\<rparr>) = None
   \<and> main_fragment_glsl sample_lights (sample_fragment\<lparr>v_worldPosition := Vec3 0 0 2\<rparr>) = None"
proof -
  have "normalize3 (Vec3 3 0 4) = Some (scale3 (Vec3 3 0 4) (1 / length3 (Vec3 3 0 4)))"
    using normalize_no_fallback [of "Vec3 3 0 4"] by auto
  moreover have "length3 (Vec3 3 0 4) = 5" by (simp add: length3_def dot3_def)
  moreover have
    "main_fragment_js sample_lights (sample_fragment\<lparr>v_worldPosition := Vec3 3 0 4\<rparr>) = None"
    using normalize_no_fallback
      [of _ sample_lights "sample_fragment\<lparr>v_worldPosition := Vec3 3 0 4\<rparr>"] by simp
  moreover have
    "main_fragment_glsl sample_lights (sample_fragment\<lparr>v_normal := Vec3 0 0 0\<rparr>) = None"
    using normalize_no_fallback
      [of _ sample_lights "sample_fragment\<lparr>v_normal := Vec3 0 0 0\<rparr>"] by simp
  moreover have
    "main_fragment_p0 sample_lights (sample_fragment\<lparr>v_smoothNormal := Vec3 0 0 0\<rparr>) = None"
    using normalize_no_fallback
      [of _ sample_lights "sample_fragment\<lparr>v_smoothNormal := Vec3 0 0 0\<rparr>"] by simp
  moreover have
    "main_fragment_glsl sample_lights (sample_fragment\<lparr>v_worldPosition := Vec3 0 0 2\<rparr>) = None"
    using normalize_no_fallback
      [of _ sample_lights "sample_fragment\<lparr>v_worldPosition := Vec3 0 0 2\<rparr>"] by simp
  ultimately show ?thesis by blast
qed

section \<open>The head-on, unlit fragment\<close>

lemma scale3_zero: "scale3 (scale3 a 0) k = Vec3 0 0 0"
  by (simp add: scale3_def)

lemma keyContribution_unlit:
  assumes "keyContribution u v n w = Some k" and "u_keyLightIntensity u = 0"
  shows "k = Vec3 0 0 0"
  using assms by (auto simp: keyContribution_def bind_eq_Some_conv Let_def scale3_zero)

lemma rimContribution_unlit:
  assumes "rimContribution u v n w = Some k" and "u_rimLightIntensity u = 0"
  shows "k = Vec3 0 0 0"
  using assms by (auto simp: rimContribution_def bind_eq_Some_conv Let_def scale3_def)

lemma fresnel_head_on:
  assumes "fresnel (Vec3 0 0 1) (Vec3 0 0 1) p b = Some f"
  shows "f = clamp b 0 1"
  using assms
  by (auto simp: fresnel_def bind_eq_Some_conv Let_def dot3_def pow_def split: if_splits)

lemma environmentGradient_head_on:
  "environmentGradient (reflect (neg3 (Vec3 0 0 1)) (Vec3 0 0 1)) = Vec3 0.04 0.045 0.06"
  by (simp add: environmentGradient_def reflect_def neg3_def smoothstep_def clamp_def mix3_def
      mix_def sub3_def add3_def scale3_def dot3_def Let_def)

lemma edgeColor_head_on: "edgeColor (Vec3 0 0 1) = Vec3 0.1505 0.158 0.186"
  by (simp add: edgeColor_def mix3_def mix_def add3_def scale3_def dot3_def Let_def)

lemma add3_zero: "add3 a (Vec3 0 0 0) = a"
  by (cases a) (simp add: add3_def)

lemma head_on_unlit_composite:
  assumes n: "normalize3 (v_normal v) = Some (Vec3 0 0 1)"
    and w: "normalize3 (sub3 (u_cameraPosition u) (v_worldPosition v)) = Some (Vec3 0 0 1)"
    and k0: "u_keyLightIntensity u = 0" and r0: "u_rimLightIntensity u = 0"
    and c: "composite_glsl u v = Some c"
  shows "keyContribution u v (Vec3 0 0 1) (Vec3 0 0 1) = Some (Vec3 0 0 0)"
    and "rimContribution u v (Vec3 0 0 1) (Vec3 0 0 1) = Some (Vec3 0 0 0)"
    and "c = scale3 (add3 (add3 (absorbedColor u v)
                 (scale3 (scale3 (Vec3 0.04 0.045 0.06) (clamp (u_fresnelBias u) 0 1)) 0.6))
                 (scale3 (scale3 (scale3 (Vec3 0.1505 0.158 0.186) (clamp (u_fresnelBias u) 0 1))
                                 (clamp (u_fresnelBias u) 0 1)) 0.4))
               (0.95 + (v_displacement v * 0.5 + 0.5) * 0.1)"
proof -
  obtain f k r where
        f: "fresnel (Vec3 0 0 1) (Vec3 0 0 1) (u_fresnelPower u) (u_fresnelBias u) = Some f"
    and k: "keyContribution u v (Vec3 0 0 1) (Vec3 0 0 1) = Some k"
    and r: "rimContribution u v (Vec3 0 0 1) (Vec3 0 0 1) = Some r"
    and c': "c = scale3 (add3 (add3 (add3 (add3 (absorbedColor u v)
                (scale3 (scale3 (environmentGradient (reflect (neg3 (Vec3 0 0 1)) (Vec3 0 0 1))) f)
                        0.6))
                (scale3 (scale3 (scale3 (edgeColor (Vec3 0 0 1)) f) f) 0.4)) k) r)
              (0.95 + (v_displacement v * 0.5 + 0.5) * 0.1)"
    using c by (auto simp: composite_glsl_def n w bind_eq_Some_conv Let_def)
  have kz: "k = Vec3 0 0 0" by (rule keyContribution_unlit [OF k k0])
  have rz: "r = Vec3 0 0 0" by (rule rimContribution_unlit [OF r r0])
  have fb: "f = clamp (u_fresnelBias u) 0 1" by (rule fresnel_head_on [OF f])
  show "keyContribution u v (Vec3 0 0 1) (Vec3 0 0 1) = Some (Vec3 0 0 0)"
    using k kz by simp
  show "rimContribution u v (Vec3 0 0 1) (Vec3 0 0 1) = Some (Vec3 0 0 0)"
    using r rz by simp
  show "c = scale3 (add3 (add3 (absorbedColor u v)
                 (scale3 (scale3 (Vec3 0.04 0.045 0.06) (clamp (u_fresnelBias u) 0 1)) 0.6))
                 (scale3 (scale3 (scale3 (Vec3 0.1505 0.158 0.186) (clamp (u_fresnelBias u) 0 1))
                                 (clamp (u_fresnelBias u) 0 1)) 0.4))
               (0.95 + (v_displacement v * 0.5 + 0.5) * 0.1)"
    by (simp only: c' kz rz fb add3_zero environmentGradient_head_on edgeColor_head_on)
qed

lemma specular_head_on: "specular (Vec3 0 0 1) (Vec3 0 0 1) (Vec3 0 0 1) 0.15 = Some 1"
  by (simp add: specular_def add3_def normalize3_axis_z dot3_def pow_def Let_def)

lemma core_and_environment_head_on:
  "add3 (absorbedColor (head_on_unlit 0.5 0.8) facing_fragment)
        (scale3 (scale3 (environmentGradient (reflect (neg3 (Vec3 0 0 1)) (Vec3 0 0 1))) 0.5) 0.6)
   = Vec3 0.021 0.0243 0.033"
  by (simp add: environmentGradient_head_on absorbedColor_def clamp_def add3_def scale3_def)

text \<open>
  Claim C7, as stated, fails on the liquid-metal shader. Seen head-on with both light
  intensities 0 and \<open>u_fresnelBias = 0.5\<close>, the fragment's colour before tone mapping is
  (0.03605, 0.0401, 0.0516), while the absorbed core colour plus the environment term is
  (0.021, 0.0243, 0.033): the Fresnel edge glow \<open>edgeColor * fresnelTerm\<^sup>2 * 0.4\<close> is the
  difference, and head-on the Fresnel term is the bias. Nor is the specular lobe gated by
  the view angle: with the key light behind the camera it is 1 head-on, and only the zero
  intensity removes it.
\<close>

theorem head_on_colour_has_edge_glow:
  "composite_glsl (head_on_unlit 0.5 0.8) facing_fragment = Some (Vec3 0.03605 0.0401 0.0516)
   \<and> add3 (absorbedColor (head_on_unlit 0.5 0.8) facing_fragment)
        (scale3 (scale3 (environmentGradient (reflect (neg3 (Vec3 0 0 1)) (Vec3 0 0 1))) 0.5) 0.6)
      = Vec3 0.021 0.0243 0.033
   \<and> specular (Vec3 0 0 1) (Vec3 0 0 1) (Vec3 0 0 1) 0.15 = Some 1"
  using head_on_unlit_values(3) core_and_environment_head_on specular_head_on by blast

text \<open>
  Claim C7, amended. For a fragment of the liquid-metal shader whose normal and view
  direction both normalise to (0,0,1), with both light intensities 0 and a defined colour:
  the key-light and rim-light contributions are exactly 0, and the colour reaching tone
  mapping is the absorbed core colour, plus the environment colour (0.04, 0.045, 0.06)
  times \<open>0.6 F\<close>, plus the edge colour (0.1505, 0.158, 0.186) times \<open>0.4 F\<^sup>2\<close>, all times
  the surface factor, where \<open>F\<close> is \<open>u_fresnelBias\<close> clamped to [0, 1]. It does not depend on
  the light colours.
\<close>

theorem head_on_unlit_colour:
  assumes "normalize3 (v_normal v) = Some (Vec3 0 0 1)"
    and "normalize3 (sub3 (u_cameraPosition u) (v_worldPosition v)) = Some (Vec3 0 0 1)"
    and "u_keyLightIntensity u = 0" and "u_rimLightIntensity u = 0"
    and "composite_glsl u v = Some c"
  shows "keyContribution u v (Vec3 0 0 1) (Vec3 0 0 1) = Some (Vec3 0 0 0)
       \<and> rimContribution u v (Vec3 0 0 1) (Vec3 0 0 1) = Some (Vec3 0 0 0)
       \<and> c = scale3 (add3 (add3 (absorbedColor u v)
                 (scale3 (scale3 (Vec3 0.04 0.045 0.06) (clamp (u_fresnelBias u) 0 1)) 0.6))
                 (scale3 (scale3 (scale3 (Vec3 0.1505 0.158 0.186) (clamp (u_fresnelBias u) 0 1))
                                 (clamp (u_fresnelBias u) 0 1)) 0.4))
               (0.95 + (v_displacement v * 0.5 + 0.5) * 0.1)
       \<and> composite_glsl (u\<lparr>u_keyLightColor := kc, u_rimLightColor := rc\<rparr>) v = Some c
       \<and> main_fragment_glsl u v = tonemap_glsl c \<bind> (\<lambda>t. Some (vec4_of t 1))"
proof -
  have "composite_glsl (u\<lparr>u_keyLightColor := kc, u_rimLightColor := rc\<rparr>) v = Some c"
    using assms(3-5)
    by (auto simp: composite_glsl_def keyContribution_def rimContribution_def absorbedColor_def
        bind_eq_Some_conv Let_def scale3_def)
  moreover have "main_fragment_glsl u v = tonemap_glsl c \<bind> (\<lambda>t. Some (vec4_of t 1))"
    by (simp add: main_fragment_glsl_def assms(5))
  ultimately show ?thesis
    using head_on_unlit_composite [OF assms] by blast
qed

theorem head_on_unlit_colour_witness:
  "keyContribution (head_on_unlit 0.5 0.8) facing_fragment (Vec3 0 0 1) (Vec3 0 0 1)
     = Some (Vec3 0 0 0)
   \<and> rimContribution (head_on_unlit 0.5 0.8) facing_fragment (Vec3 0 0 1) (Vec3 0 0 1)
     = Some (Vec3 0 0 0)
   \<and> composite_glsl (head_on_unlit 0.5 0.8) facing_fragment = Some (Vec3 0.03605 0.0401 0.0516)
   \<and> composite_glsl ((head_on_unlit 0.5 0.8)\<lparr>u_keyLightColor := Vec3 0 1 0,
        u_rimLightColor := Vec3 1 0 0\<rparr>) facing_fragment = Some (Vec3 0.03605 0.0401 0.0516)"
proof -
  have n: "normalize3 (v_normal facing_fragment) = Some (Vec3 0 0 1)"
    by (simp add: normalize3_axis_z)
  have w: "normalize3 (sub3 (u_cameraPosition (head_on_unlit 0.5 0.8))
             (v_worldPosition facing_fragment)) = Some (Vec3 0 0 1)"
    by (simp add: sub3_def normalize3_axis_z)
  have i: "u_keyLightIntensity (head_on_unlit 0.5 0.8) = 0"
    "u_rimLightIntensity (head_on_unlit 0.5 0.8) = 0"
    by simp_all
  show ?thesis
    using head_on_unlit_colour [OF n w i head_on_unlit_values(3),
        where kc = "Vec3 0 1 0" and rc = "Vec3 1 0 0"] head_on_unlit_values(3)
    by blast
qed

section \<open>A bound on the 4D noise\<close>














section \<open>Evaluating the 3D noise\<close>




section \<open>Bounds on the displacement\<close>




section \<open>The range of the noise\<close>



section \<open>The displacement of the deformers\<close>




end
